theory Spec2Isabelle
  imports Main "HOL-Library.Word"
begin

section \<open>Global configuration (internal/global/global.go)\<close>

text \<open>
  The package holds two variables: \<open>configOnce\<close>, a \<open>sync.Once\<close>, and \<open>appConfig\<close>, a
  pointer to the configuration. A \<open>sync.Once\<close> is modelled by the flag that says whether
  its \<open>Do\<close> has already run a function; a pointer is an option, \<open>None\<close> for \<open>nil\<close>.
  The calls are taken one after the other (no concurrent callers).
\<close>

record 'c global_state =
  configOnce :: bool
  appConfig :: "'c option"

definition global_initial :: "'c global_state" where
  "global_initial = \<lparr>configOnce = False, appConfig = None\<rparr>"

definition SetConfig :: "'c option \<Rightarrow> 'c global_state \<Rightarrow> 'c global_state" where
  "SetConfig cfg g =
     (if configOnce g then g else g\<lparr>configOnce := True, appConfig := cfg\<rparr>)"

definition GetConfig :: "'c global_state \<Rightarrow> 'c option" where
  "GetConfig g = appConfig g"

section \<open>Data shared by the packages\<close>

text \<open>
  An \<open>error\<close> of the program is the text of its message; \<open>fmt.Errorf("p: %w", err)\<close> is
  the prefix followed by the message of the wrapped error. A function of type
  \<open>func(...) error\<close> returns an \<open>error option\<close>, \<open>None\<close> for \<open>nil\<close>.
\<close>

type_synonym error = string

datatype subsystem = MySQL | PostgreSQL | Redis | Elasticsearch | Kafka

text \<open>The handles whose \<open>Close\<close> method the packages call.\<close>

datatype resource = MySQLConn | PostgreSQLConn | RedisClient | KafkaProducer | KafkaConsumer

text \<open>
  \<open>ckafka.TopicPartition\<close> has a partition of type \<open>int32\<close> and an offset of type
  \<open>ckafka.Offset\<close> (an \<open>int64\<close>). The client library's constants \<open>ckafka.PartitionAny\<close>
  and \<open>ckafka.OffsetEnd\<close> are not part of the sources; they are kept symbolic, as
  constructors of their own.
\<close>

datatype partition = PartitionAny | PartitionAt "32 word"

datatype offset = OffsetEnd | OffsetAt "64 word"

text \<open>
  \<open>ckafka.Message\<close>, with the fields of its \<open>TopicPartition\<close> inlined. Byte slices are
  strings.
\<close>

record message =
  msg_topic :: string
  msg_partition :: partition
  msg_offset :: offset
  msg_key :: string
  msg_payload :: string
  msg_error :: "error option"

text \<open>
  What the program does to its collaborators, in the order in which it does it:
  \<^item> \<open>Init s r\<close>: the \<open>Init\<close> function of package \<open>s\<close> was called and returned \<open>r\<close>;
  \<^item> \<open>Close s r\<close>: the \<open>Close\<close> function of package \<open>s\<close> was called and returned \<open>r\<close>;
  \<^item> \<open>Released h\<close>: the \<open>Close\<close> method of the handle \<open>h\<close> itself was called;
  \<^item> \<open>Produce m\<close>: \<open>producer.Produce(m, deliveryChan)\<close>;
  \<^item> \<open>Assign tps\<close>, \<open>Unassign\<close>, \<open>Poll ms\<close>: the calls on the consumer handle;
  \<^item> \<open>Handled m\<close>: the caller's handler was called on \<open>m\<close>.
\<close>

datatype event =
    Init subsystem "error option"
  | Close subsystem "error option"
  | Released resource
  | Produce message
  | Assign "(string \<times> partition \<times> offset) list"
  | Unassign
  | Poll nat
  | Handled message

text \<open>
  A line handed to the logger: the level, the message or format template, and the
  arguments (\<open>zap.Error(err)\<close>, or the arguments of \<open>Infof\<close>/\<open>Errorf\<close>, unformatted).
\<close>

datatype level = INFO | ERROR

datatype log_arg = ArgString string | ArgPartition partition | ArgOffset offset | ArgError error

datatype log_entry = Log level string "log_arg list"

text \<open>
  The package-level variables of the storage, cache and messaging packages (a pointer is
  modelled by whether it is non-nil), the assignment held by the consumer handle, and the
  two observation logs.
\<close>

record world =
  mysql_db :: bool
  postgres_db :: bool
  redis_client :: bool
  es_client :: bool
  kafka_producer :: bool
  kafka_consumer :: bool
  assigned :: "(string \<times> partition) list"
  trace :: "event list"
  logs :: "log_entry list"

definition initial_world :: world where
  "initial_world = \<lparr>mysql_db = False, postgres_db = False, redis_client = False,
     es_client = False, kafka_producer = False, kafka_consumer = False,
     assigned = [], trace = [], logs = []\<rparr>"

definition emit :: "event \<Rightarrow> world \<Rightarrow> world" where
  "emit e w = w\<lparr>trace := trace w @ [e]\<rparr>"

definition logger_Info :: "string \<Rightarrow> world \<Rightarrow> world" where
  "logger_Info msg w = w\<lparr>logs := logs w @ [Log INFO msg []]\<rparr>"

definition logger_Error :: "string \<Rightarrow> error \<Rightarrow> world \<Rightarrow> world" where
  "logger_Error msg err w = w\<lparr>logs := logs w @ [Log ERROR msg [ArgError err]]\<rparr>"

definition logger_Infof :: "string \<Rightarrow> log_arg list \<Rightarrow> world \<Rightarrow> world" where
  "logger_Infof template args w = w\<lparr>logs := logs w @ [Log INFO template args]\<rparr>"

definition logger_Errorf :: "string \<Rightarrow> log_arg list \<Rightarrow> world \<Rightarrow> world" where
  "logger_Errorf template args w = w\<lparr>logs := logs w @ [Log ERROR template args]\<rparr>"

text \<open>
  The part of \<open>config.Config\<close> that decides the control flow: the \<open>Enabled\<close> flags. The
  connection parameters only reach the external clients, whose answers are inputs below.
\<close>

record config =
  mysql_enabled :: bool
  postgres_enabled :: bool
  redis_enabled :: bool
  elasticsearch_enabled :: bool
  kafka_enabled :: bool

text \<open>
  The answers of the external clients. A constructor call such as \<open>gorm.Open\<close> returns a
  handle and an error: \<open>Opened\<close> is a non-nil handle and no error, \<open>OpenFailed h e\<close> is the
  error \<open>e\<close> together with a handle that is non-nil iff \<open>h\<close>.
\<close>

datatype open_outcome = Opened | OpenFailed bool error

datatype ping_outcome = PingFailed error | PingStatus bool string

record env =
  mysql_open :: open_outcome
  mysql_sqldb :: "error option"
  mysql_ping :: "error option"
  mysql_close :: "error option"
  postgres_open :: open_outcome
  postgres_sqldb :: "error option"
  postgres_ping :: "error option"
  postgres_close :: "error option"
  redis_ping :: "error option"
  redis_close :: "error option"
  es_new :: open_outcome
  es_ping :: ping_outcome
  kafka_new_producer :: open_outcome
  kafka_new_consumer :: open_outcome
  kafka_consumer_close :: "error option"

section \<open>The storage, cache and search packages\<close>

text \<open>\<open>mysql.Init\<close> and \<open>mysql.Close\<close> (pkg/storage/mysql/mysql.go).\<close>

definition mysql_Init_body :: "env \<Rightarrow> world \<Rightarrow> world \<times> error option" where
  "mysql_Init_body en w =
     (case mysql_open en of
        OpenFailed h e \<Rightarrow> (w\<lparr>mysql_db := h\<rparr>, Some (''failed to connect to MySQL: '' @ e))
      | Opened \<Rightarrow>
          (let w1 = w\<lparr>mysql_db := True\<rparr> in
           case mysql_sqldb en of
             Some e \<Rightarrow> (w1, Some (''failed to get underlying sql.DB: '' @ e))
           | None \<Rightarrow>
               (case mysql_ping en of
                  Some e \<Rightarrow> (w1, Some (''failed to ping MySQL: '' @ e))
                | None \<Rightarrow> (w1, None))))"

definition returning :: "(error option \<Rightarrow> event) \<Rightarrow> world \<times> error option \<Rightarrow> world \<times> error option" where
  "returning ev p = (emit (ev (snd p)) (fst p), snd p)"

definition mysql_Init :: "env \<Rightarrow> world \<Rightarrow> world \<times> error option" where
  "mysql_Init en w = returning (Init MySQL) (mysql_Init_body en w)"

definition mysql_Close_body :: "env \<Rightarrow> world \<Rightarrow> world \<times> error option" where
  "mysql_Close_body en w =
     (if mysql_db w then
        (case mysql_sqldb en of
           Some e \<Rightarrow> (w, Some e)
         | None \<Rightarrow> (emit (Released MySQLConn) w, mysql_close en))
      else (w, None))"

definition mysql_Close :: "env \<Rightarrow> world \<Rightarrow> world \<times> error option" where
  "mysql_Close en w = returning (Close MySQL) (mysql_Close_body en w)"

text \<open>\<open>postgres.Init\<close> and \<open>postgres.Close\<close>.\<close>

definition postgres_Init_body :: "env \<Rightarrow> world \<Rightarrow> world \<times> error option" where
  "postgres_Init_body en w =
     (case postgres_open en of
        OpenFailed h e \<Rightarrow>
          (w\<lparr>postgres_db := h\<rparr>, Some (''failed to connect to PostgreSQL: '' @ e))
      | Opened \<Rightarrow>
          (let w1 = w\<lparr>postgres_db := True\<rparr> in
           case postgres_sqldb en of
             Some e \<Rightarrow> (w1, Some (''failed to get underlying sql.DB: '' @ e))
           | None \<Rightarrow>
               (case postgres_ping en of
                  Some e \<Rightarrow> (w1, Some (''failed to ping PostgreSQL: '' @ e))
                | None \<Rightarrow> (w1, None))))"

definition postgres_Init :: "env \<Rightarrow> world \<Rightarrow> world \<times> error option" where
  "postgres_Init en w = returning (Init PostgreSQL) (postgres_Init_body en w)"

definition postgres_Close_body :: "env \<Rightarrow> world \<Rightarrow> world \<times> error option" where
  "postgres_Close_body en w =
     (if postgres_db w then
        (case postgres_sqldb en of
           Some e \<Rightarrow> (w, Some e)
         | None \<Rightarrow> (emit (Released PostgreSQLConn) w, postgres_close en))
      else (w, None))"

definition postgres_Close :: "env \<Rightarrow> world \<Rightarrow> world \<times> error option" where
  "postgres_Close en w = returning (Close PostgreSQL) (postgres_Close_body en w)"

text \<open>
  \<open>redisx.Init\<close> and \<open>redisx.Close\<close>: \<open>redis.NewClient\<close> returns a client and no error, so
  the variable is set before the ping.
\<close>

definition redisx_Init_body :: "env \<Rightarrow> world \<Rightarrow> world \<times> error option" where
  "redisx_Init_body en w =
     (let w1 = w\<lparr>redis_client := True\<rparr> in
      case redis_ping en of
        Some e \<Rightarrow> (w1, Some (''failed to connect to Redis: '' @ e))
      | None \<Rightarrow> (w1, None))"

definition redisx_Init :: "env \<Rightarrow> world \<Rightarrow> world \<times> error option" where
  "redisx_Init en w = returning (Init Redis) (redisx_Init_body en w)"

definition redisx_Close_body :: "env \<Rightarrow> world \<Rightarrow> world \<times> error option" where
  "redisx_Close_body en w =
     (if redis_client w then (emit (Released RedisClient) w, redis_close en) else (w, None))"

definition redisx_Close :: "env \<Rightarrow> world \<Rightarrow> world \<times> error option" where
  "redisx_Close en w = returning (Close Redis) (redisx_Close_body en w)"

text \<open>
  \<open>elasticsearch.Init\<close> and \<open>elasticsearch.Close\<close>; the latter returns \<open>nil\<close> and calls
  nothing.
\<close>

definition elasticsearch_Init_body :: "env \<Rightarrow> world \<Rightarrow> world \<times> error option" where
  "elasticsearch_Init_body en w =
     (case es_new en of
        OpenFailed h e \<Rightarrow>
          (w\<lparr>es_client := h\<rparr>, Some (''failed to create Elasticsearch client: '' @ e))
      | Opened \<Rightarrow>
          (let w1 = w\<lparr>es_client := True\<rparr> in
           case es_ping en of
             PingFailed e \<Rightarrow> (w1, Some (''failed to ping Elasticsearch: '' @ e))
           | PingStatus is_error status \<Rightarrow>
               (if is_error
                then (w1, Some (''Elasticsearch ping failed with status: '' @ status))
                else (w1, None))))"

definition elasticsearch_Init :: "env \<Rightarrow> world \<Rightarrow> world \<times> error option" where
  "elasticsearch_Init en w = returning (Init Elasticsearch) (elasticsearch_Init_body en w)"

definition elasticsearch_Close :: "env \<Rightarrow> world \<Rightarrow> world \<times> error option" where
  "elasticsearch_Close en w = returning (Close Elasticsearch) (w, None)"

section \<open>The messaging package: connection\<close>

text \<open>
  \<open>kafka.Init\<close> calls \<open>initProducer\<close> and then \<open>initConsumer\<close>; each stores what the
  constructor returned in its package variable before looking at the error.
\<close>

definition initProducer :: "env \<Rightarrow> world \<Rightarrow> world \<times> error option" where
  "initProducer en w =
     (case kafka_new_producer en of
        OpenFailed h e \<Rightarrow>
          (w\<lparr>kafka_producer := h\<rparr>, Some (''failed to create Kafka producer: '' @ e))
      | Opened \<Rightarrow> (w\<lparr>kafka_producer := True\<rparr>, None))"

definition initConsumer :: "env \<Rightarrow> world \<Rightarrow> world \<times> error option" where
  "initConsumer en w =
     (case kafka_new_consumer en of
        OpenFailed h e \<Rightarrow>
          (w\<lparr>kafka_consumer := h\<rparr>, Some (''failed to create Kafka consumer: '' @ e))
      | Opened \<Rightarrow> (w\<lparr>kafka_consumer := True\<rparr>, None))"

definition kafka_Init_body :: "env \<Rightarrow> world \<Rightarrow> world \<times> error option" where
  "kafka_Init_body en w =
     (case initProducer en w of
        (w1, Some e) \<Rightarrow> (w1, Some (''failed to initialize Kafka producer: '' @ e))
      | (w1, None) \<Rightarrow>
          (case initConsumer en w1 of
             (w2, Some e) \<Rightarrow> (w2, Some (''failed to initialize Kafka consumer: '' @ e))
           | (w2, None) \<Rightarrow> (w2, None)))"

definition kafka_Init :: "env \<Rightarrow> world \<Rightarrow> world \<times> error option" where
  "kafka_Init en w = returning (Init Kafka) (kafka_Init_body en w)"

text \<open>
  \<open>kafka.Close\<close>: \<open>producer.Close()\<close> returns nothing; the error of \<open>consumer.Close()\<close>
  is wrapped, with the previous error appended when there is one (there never is: \<open>err\<close>
  is still \<open>nil\<close> at that point).
\<close>

definition kafka_Close_body :: "env \<Rightarrow> world \<Rightarrow> world \<times> error option" where
  "kafka_Close_body en w =
     (let err = None;
          w1 = (if kafka_producer w then emit (Released KafkaProducer) w else w)
      in if kafka_consumer w1 then
           (let w2 = emit (Released KafkaConsumer) w1 in
            case kafka_consumer_close en of
              Some closeErr \<Rightarrow>
                (case err of
                   Some prev \<Rightarrow>
                     (w2, Some (''failed to close consumer: '' @ closeErr
                                 @ '', previous error: '' @ prev))
                 | None \<Rightarrow> (w2, Some (''failed to close consumer: '' @ closeErr)))
            | None \<Rightarrow> (w2, err))
         else (w1, err))"

definition kafka_Close :: "env \<Rightarrow> world \<Rightarrow> world \<times> error option" where
  "kafka_Close en w = returning (Close Kafka) (kafka_Close_body en w)"

section \<open>The messaging package: publish and consume\<close>

text \<open>
  A \<open>context.Context\<close>, as far as the code looks at it. Time is a count of ticks: tick 0
  is the moment of the call, and \<open>ConsumeMessages\<close> makes its \<open>i\<close>-th check of
  \<open>ctx.Done()\<close> at tick \<open>i\<close>. \<open>cancel_tick\<close> is the tick from which \<open>Done()\<close> is closed
  (\<open>None\<close>: never); \<open>ctx_error\<close> is what \<open>ctx.Err()\<close> returns from then on.
\<close>

record go_context =
  cancel_tick :: "nat option"
  ctx_error :: error

definition cancelled_by :: "go_context \<Rightarrow> nat \<Rightarrow> bool" where
  "cancelled_by ctx i = (case cancel_tick ctx of None \<Rightarrow> False | Some n \<Rightarrow> n \<le> i)"

text \<open>
  The answers of the producer handle to one \<open>PublishMessage\<close>: what \<open>Produce\<close> returns,
  the delivery report that arrives on the delivery channel (\<open>None\<close>: none ever arrives;
  the client sends messages only, so the type assertion of the code holds), and, for the
  case that the report and the cancellation are both there when the \<open>select\<close> looks,
  whether it takes the report.
\<close>

record publish_env =
  produce_error :: "error option"
  delivery :: "message option"
  delivery_first :: bool

datatype selected = Received message | ContextDone | Blocked

text \<open>
  \<open>select { case e := <-deliveryChan: ... case <-ctx.Done(): ... }\<close>: it blocks until one of
  the two is ready, for ever when neither comes.
\<close>

fun select_delivery :: "message option \<Rightarrow> bool \<Rightarrow> bool \<Rightarrow> selected" where
  "select_delivery (Some m) ctx_done first =
     (if ctx_done \<and> \<not> first then ContextDone else Received m)"
| "select_delivery None ctx_done first = (if ctx_done then ContextDone else Blocked)"

text \<open>
  The message \<open>PublishMessage\<close> builds: \<open>Partition: ckafka.PartitionAny\<close>, and the zero
  value for the offset and the error, which the literal does not set.
\<close>

definition envelope :: "string \<Rightarrow> string \<Rightarrow> string \<Rightarrow> message" where
  "envelope topic key payload =
     \<lparr>msg_topic = topic, msg_partition = PartitionAny, msg_offset = OffsetAt 0,
      msg_key = key, msg_payload = payload, msg_error = None\<rparr>"

text \<open>\<open>PublishMessage\<close>. The result is \<open>None\<close> when the call never returns.\<close>

definition PublishMessage ::
  "go_context \<Rightarrow> publish_env \<Rightarrow> string \<Rightarrow> string \<Rightarrow> string \<Rightarrow> world
     \<Rightarrow> (world \<times> error option) option" where
  "PublishMessage ctx pe topic key payload w =
     (if \<not> kafka_producer w then Some (w, Some ''Kafka producer not initialized'')
      else
        (let msg = envelope topic key payload;
             w1 = emit (Produce msg) w
         in case produce_error pe of
              Some e \<Rightarrow>
                Some (w1, Some (''failed to produce message to topic '' @ topic @ '': '' @ e))
            | None \<Rightarrow>
                (case select_delivery (delivery pe) (cancel_tick ctx \<noteq> None)
                        (delivery_first pe) of
                   Received m \<Rightarrow>
                     (case msg_error m of
                        Some e \<Rightarrow> Some (w1, Some (''delivery failed: '' @ e))
                      | None \<Rightarrow>
                          Some (logger_Infof
                                  ''Message sent to topic %s, partition %d, offset %v''
                                  [ArgString topic, ArgPartition (msg_partition m),
                                   ArgOffset (msg_offset m)] w1,
                                None))
                 | ContextDone \<Rightarrow> Some (w1, Some (ctx_error ctx))
                 | Blocked \<Rightarrow> None)))"

text \<open>
  The answers of the consumer handle to one \<open>ConsumeMessages\<close>: what \<open>Assign\<close> and
  \<open>Unassign\<close> return, and what the \<open>i\<close>-th \<open>Poll\<close> returns, which may depend on the
  assignment the handle holds at that moment.
\<close>

datatype poll_event = NoEvent | MessageEvent message | ErrorEvent error | OtherEvent

record consume_env =
  assign_error :: "error option"
  unassign_error :: "error option"
  polls :: "nat \<Rightarrow> (string \<times> partition) list \<Rightarrow> poll_event"

text \<open>
  The three calls on the consumer handle. A successful \<open>Assign\<close> replaces the assignment
  of the handle, a successful \<open>Unassign\<close> empties it.
\<close>

definition consumer_Assign ::
  "consume_env \<Rightarrow> (string \<times> partition \<times> offset) list \<Rightarrow> world \<Rightarrow> world \<times> error option" where
  "consumer_Assign ce tps w =
     (let w1 = emit (Assign tps) w in
      case assign_error ce of
        Some e \<Rightarrow> (w1, Some e)
      | None \<Rightarrow> (w1\<lparr>assigned := map (\<lambda>tp. (fst tp, fst (snd tp))) tps\<rparr>, None))"

definition consumer_Unassign :: "consume_env \<Rightarrow> world \<Rightarrow> world \<times> error option" where
  "consumer_Unassign ce w =
     (let w1 = emit Unassign w in
      case unassign_error ce of
        Some e \<Rightarrow> (w1, Some e)
      | None \<Rightarrow> (w1\<lparr>assigned := []\<rparr>, None))"

definition consumer_Poll ::
  "consume_env \<Rightarrow> nat \<Rightarrow> nat \<Rightarrow> world \<Rightarrow> world \<times> poll_event" where
  "consumer_Poll ce i timeout_ms w = (emit (Poll timeout_ms) w, polls ce i (assigned w))"

text \<open>
  The \<open>default\<close> branch of the loop: one \<open>Poll(100)\<close> and the dispatch on the event. The
  handler is the caller's function; it is taken to return.
\<close>

definition loop_body ::
  "consume_env \<Rightarrow> (message \<Rightarrow> error option) \<Rightarrow> nat \<Rightarrow> world \<Rightarrow> world" where
  "loop_body ce handler i w =
     (case consumer_Poll ce i 100 w of
        (w1, NoEvent) \<Rightarrow> w1
      | (w1, MessageEvent ev) \<Rightarrow>
          (let w2 = emit (Handled ev) w1 in
           case handler ev of
             Some err \<Rightarrow> logger_Errorf ''Error processing message: %v'' [ArgError err] w2
           | None \<Rightarrow> w2)
      | (w1, ErrorEvent ev) \<Rightarrow> logger_Errorf ''Consumer error: %v'' [ArgError ev] w1
      | (w1, OtherEvent) \<Rightarrow> w1)"

text \<open>
  \<open>for { select { case <-ctx.Done(): return ctx.Err(); default: ... } }\<close>, from the
  \<open>i\<close>-th check on. The loop has no other exit, so the result is \<open>None\<close> when the
  context is never cancelled.
\<close>

partial_function (option) poll_loop ::
  "go_context \<Rightarrow> consume_env \<Rightarrow> (message \<Rightarrow> error option) \<Rightarrow> nat \<Rightarrow> world
     \<Rightarrow> (world \<times> error option) option" where
  "poll_loop ctx ce handler i w =
     (if cancelled_by ctx i then Some (w, Some (ctx_error ctx))
      else poll_loop ctx ce handler (Suc i) (loop_body ce handler i w))"

text \<open>
  \<open>ConsumeMessages\<close>. The deferred \<open>Unassign\<close> is registered after the assignment has
  succeeded, runs when the loop returns, and its error is dropped.
\<close>

definition ConsumeMessages ::
  "go_context \<Rightarrow> consume_env \<Rightarrow> string \<Rightarrow> (message \<Rightarrow> error option) \<Rightarrow> world
     \<Rightarrow> (world \<times> error option) option" where
  "ConsumeMessages ctx ce topic handler w =
     (if \<not> kafka_consumer w then Some (w, Some ''Kafka consumer not initialized'')
      else
        (case consumer_Assign ce [(topic, PartitionAt 0, OffsetEnd)] w of
           (w1, Some e) \<Rightarrow>
             Some (w1, Some (''failed to assign consumer to topic '' @ topic @ '': '' @ e))
         | (w1, None) \<Rightarrow>
             (case poll_loop ctx ce handler 0 w1 of
                None \<Rightarrow> None
              | Some (w2, r) \<Rightarrow> Some (fst (consumer_Unassign ce w2), r))))"

section \<open>Bootstrap: Start and Shutdown (internal/bootstrap)\<close>

text \<open>
  A bootstrap function returns \<open>nil\<close> (\<open>Success\<close>) or an error (\<open>Failure\<close>), or panics: each
  \<open>init...\<close> function reads a field of \<open>global.GetConfig()\<close> without a nil check.
\<close>

datatype result = Success | Failure error | Panic

text \<open>
  The block every \<open>init...\<close> function repeats:
  \<^verbatim>\<open>if cfg.X.Enabled { if err := x.Init(ctx, cfg.X); err != nil { return fmt.Errorf(p, err) }; logger.Info(m) }\<close>
\<close>

definition guarded_init ::
  "bool \<Rightarrow> (env \<Rightarrow> world \<Rightarrow> world \<times> error option) \<Rightarrow> string \<Rightarrow> string
     \<Rightarrow> env \<Rightarrow> world \<Rightarrow> world \<times> error option" where
  "guarded_init is_enabled init_fn prefix ok_msg en w =
     (if is_enabled then
        (case init_fn en w of
           (w1, Some e) \<Rightarrow> (w1, Some (prefix @ e))
         | (w1, None) \<Rightarrow> (logger_Info ok_msg w1, None))
      else (w, None))"

definition initDatabases :: "config global_state \<Rightarrow> env \<Rightarrow> world \<Rightarrow> world \<times> result" where
  "initDatabases g en w =
     (case GetConfig g of
        None \<Rightarrow> (w, Panic)
      | Some cfg \<Rightarrow>
          (case guarded_init (mysql_enabled cfg) mysql_Init
                  ''failed to initialize MySQL: '' ''MySQL connection initialized'' en w of
             (w1, Some e) \<Rightarrow> (w1, Failure e)
           | (w1, None) \<Rightarrow>
               (case guarded_init (postgres_enabled cfg) postgres_Init
                       ''failed to initialize PostgreSQL: ''
                       ''PostgreSQL connection initialized'' en w1 of
                  (w2, Some e) \<Rightarrow> (w2, Failure e)
                | (w2, None) \<Rightarrow> (w2, Success))))"

definition initCache :: "config global_state \<Rightarrow> env \<Rightarrow> world \<Rightarrow> world \<times> result" where
  "initCache g en w =
     (case GetConfig g of
        None \<Rightarrow> (w, Panic)
      | Some cfg \<Rightarrow>
          (case guarded_init (redis_enabled cfg) redisx_Init
                  ''failed to initialize Redis: '' ''Redis connection initialized'' en w of
             (w1, Some e) \<Rightarrow> (w1, Failure e)
           | (w1, None) \<Rightarrow> (w1, Success)))"

definition initElasticsearch :: "config global_state \<Rightarrow> env \<Rightarrow> world \<Rightarrow> world \<times> result" where
  "initElasticsearch g en w =
     (case GetConfig g of
        None \<Rightarrow> (w, Panic)
      | Some cfg \<Rightarrow>
          (case guarded_init (elasticsearch_enabled cfg) elasticsearch_Init
                  ''failed to initialize Elasticsearch: ''
                  ''Elasticsearch connection initialized'' en w of
             (w1, Some e) \<Rightarrow> (w1, Failure e)
           | (w1, None) \<Rightarrow> (w1, Success)))"

definition initKafka :: "config global_state \<Rightarrow> env \<Rightarrow> world \<Rightarrow> world \<times> result" where
  "initKafka g en w =
     (case GetConfig g of
        None \<Rightarrow> (w, Panic)
      | Some cfg \<Rightarrow>
          (case guarded_init (kafka_enabled cfg) kafka_Init
                  ''failed to initialize Kafka: '' ''Kafka connection initialized'' en w of
             (w1, Some e) \<Rightarrow> (w1, Failure e)
           | (w1, None) \<Rightarrow> (w1, Success)))"

text \<open>
  One stage of \<open>Start\<close>: \<open>if err := stage(ctx); err != nil { return fmt.Errorf(p, err) }\<close>,
  followed by the rest of the function.
\<close>

definition stage ::
  "world \<times> result \<Rightarrow> string \<Rightarrow> (world \<Rightarrow> world \<times> result) \<Rightarrow> world \<times> result" where
  "stage p prefix rest =
     (case snd p of
        Failure e \<Rightarrow> (fst p, Failure (prefix @ e))
      | Panic \<Rightarrow> (fst p, Panic)
      | Success \<Rightarrow> rest (fst p))"

definition Start :: "config global_state \<Rightarrow> env \<Rightarrow> world \<Rightarrow> world \<times> result" where
  "Start g en w =
     stage (initDatabases g en (logger_Info ''Starting application bootstrap...'' w))
       ''failed to initialize databases: ''
       (\<lambda>w1. stage (initCache g en w1) ''failed to initialize cache: ''
       (\<lambda>w2. stage (initElasticsearch g en w2) ''failed to initialize Elasticsearch: ''
       (\<lambda>w3. stage (initKafka g en w3) ''failed to initialize Kafka: ''
       (\<lambda>w4. (logger_Info ''Application bootstrap completed successfully'' w4, Success)))))"

text \<open>
  One block of \<open>Shutdown\<close>:
  \<^verbatim>\<open>if err := x.Close(); err != nil { logger.Error(m, zap.Error(err)) }\<close>
\<close>

definition close_logged ::
  "(env \<Rightarrow> world \<Rightarrow> world \<times> error option) \<Rightarrow> string \<Rightarrow> env \<Rightarrow> world \<Rightarrow> world" where
  "close_logged close_fn msg en w =
     (case close_fn en w of
        (w1, Some e) \<Rightarrow> logger_Error msg e w1
      | (w1, None) \<Rightarrow> w1)"

definition Shutdown :: "env \<Rightarrow> world \<Rightarrow> world \<times> error option" where
  "Shutdown en w =
     (let w0 = logger_Info ''Starting graceful shutdown...'' w;
          w1 = close_logged mysql_Close ''Error closing MySQL connection'' en w0;
          w2 = close_logged postgres_Close ''Error closing PostgreSQL connection'' en w1;
          w3 = close_logged redisx_Close ''Error closing Redis connection'' en w2;
          w4 = close_logged elasticsearch_Close ''Error closing Elasticsearch connection'' en w3;
          w5 = close_logged kafka_Close ''Error closing Kafka connection'' en w4
      in (logger_Info ''Graceful shutdown completed'' w5, None))"

section \<open>Observations on a trace\<close>

text \<open>
  The code keeps no list of started subsystems; what was started is read off the trace:
  the packages whose \<open>Init\<close> returned \<open>nil\<close>, in the order of the calls.
\<close>

fun init_of :: "event \<Rightarrow> subsystem list" where
  "init_of (Init s r) = [s]"
| "init_of _ = []"

fun started_of :: "event \<Rightarrow> subsystem list" where
  "started_of (Init s None) = [s]"
| "started_of _ = []"

fun close_of :: "event \<Rightarrow> subsystem list" where
  "close_of (Close s r) = [s]"
| "close_of _ = []"

fun closing_of :: "event \<Rightarrow> event list" where
  "closing_of (Close s r) = [Close s r]"
| "closing_of (Released h) = [Released h]"
| "closing_of _ = []"

definition init_calls :: "event list \<Rightarrow> subsystem list" where
  "init_calls tr = concat (map init_of tr)"

definition started :: "event list \<Rightarrow> subsystem list" where
  "started tr = concat (map started_of tr)"

definition close_calls :: "event list \<Rightarrow> subsystem list" where
  "close_calls tr = concat (map close_of tr)"

definition closings :: "event list \<Rightarrow> event list" where
  "closings tr = concat (map closing_of tr)"

text \<open>The events a call added to the trace it was started with.\<close>

definition added :: "world \<Rightarrow> world \<Rightarrow> event list" where
  "added w w' = drop (length (trace w)) (trace w')"

definition added_logs :: "world \<Rightarrow> world \<Rightarrow> log_entry list" where
  "added_logs w w' = drop (length (logs w)) (logs w')"

text \<open>The order in which \<open>Start\<close> and its \<open>init...\<close> functions name the packages.\<close>

definition declaration_order :: "subsystem list" where
  "declaration_order = [MySQL, PostgreSQL, Redis, Elasticsearch, Kafka]"

fun enabled :: "config \<Rightarrow> subsystem \<Rightarrow> bool" where
  "enabled cfg MySQL = mysql_enabled cfg"
| "enabled cfg PostgreSQL = postgres_enabled cfg"
| "enabled cfg Redis = redis_enabled cfg"
| "enabled cfg Elasticsearch = elasticsearch_enabled cfg"
| "enabled cfg Kafka = kafka_enabled cfg"

fun Init_of :: "subsystem \<Rightarrow> env \<Rightarrow> world \<Rightarrow> world \<times> error option" where
  "Init_of MySQL = mysql_Init"
| "Init_of PostgreSQL = postgres_Init"
| "Init_of Redis = redisx_Init"
| "Init_of Elasticsearch = elasticsearch_Init"
| "Init_of Kafka = kafka_Init"

fun Close_of :: "subsystem \<Rightarrow> env \<Rightarrow> world \<Rightarrow> world \<times> error option" where
  "Close_of MySQL = mysql_Close"
| "Close_of PostgreSQL = postgres_Close"
| "Close_of Redis = redisx_Close"
| "Close_of Elasticsearch = elasticsearch_Close"
| "Close_of Kafka = kafka_Close"

text \<open>
  What the \<open>Init\<close> (the \<open>Close\<close>) of a package returns: in \<open>Init\<close> it depends on the answers
  of the clients only, in \<open>Close\<close> also on the package's variables.
\<close>

definition init_error :: "env \<Rightarrow> subsystem \<Rightarrow> error option" where
  "init_error en s = snd (Init_of s en initial_world)"

definition close_error :: "env \<Rightarrow> world \<Rightarrow> subsystem \<Rightarrow> error option" where
  "close_error en w s = snd (Close_of s en w)"

text \<open>Whether the package variables of a subsystem hold handles.\<close>

fun holds_handle :: "world \<Rightarrow> subsystem \<Rightarrow> bool" where
  "holds_handle w MySQL = mysql_db w"
| "holds_handle w PostgreSQL = postgres_db w"
| "holds_handle w Redis = redis_client w"
| "holds_handle w Elasticsearch = es_client w"
| "holds_handle w Kafka = (kafka_producer w \<and> kafka_consumer w)"

text \<open>The two prefixes \<open>Start\<close> and the \<open>init...\<close> function put before the cause.\<close>

fun stage_prefix :: "subsystem \<Rightarrow> string" where
  "stage_prefix MySQL = ''failed to initialize databases: ''"
| "stage_prefix PostgreSQL = ''failed to initialize databases: ''"
| "stage_prefix Redis = ''failed to initialize cache: ''"
| "stage_prefix Elasticsearch = ''failed to initialize Elasticsearch: ''"
| "stage_prefix Kafka = ''failed to initialize Kafka: ''"

fun subsystem_prefix :: "subsystem \<Rightarrow> string" where
  "subsystem_prefix MySQL = ''failed to initialize MySQL: ''"
| "subsystem_prefix PostgreSQL = ''failed to initialize PostgreSQL: ''"
| "subsystem_prefix Redis = ''failed to initialize Redis: ''"
| "subsystem_prefix Elasticsearch = ''failed to initialize Elasticsearch: ''"
| "subsystem_prefix Kafka = ''failed to initialize Kafka: ''"

fun close_message :: "subsystem \<Rightarrow> string" where
  "close_message MySQL = ''Error closing MySQL connection''"
| "close_message PostgreSQL = ''Error closing PostgreSQL connection''"
| "close_message Redis = ''Error closing Redis connection''"
| "close_message Elasticsearch = ''Error closing Elasticsearch connection''"
| "close_message Kafka = ''Error closing Kafka connection''"

fun close_result_of :: "event \<Rightarrow> (subsystem \<times> error option) list" where
  "close_result_of (Close s r) = [(s, r)]"
| "close_result_of _ = []"

definition close_results :: "event list \<Rightarrow> (subsystem \<times> error option) list" where
  "close_results tr = concat (map close_result_of tr)"

text \<open>
  The messages handed to the handler, the timeouts of the polls, the assignments and the
  messages submitted, and what each \<open>Close\<close> returned.
\<close>

fun handled_of :: "event \<Rightarrow> message list" where
  "handled_of (Handled m) = [m]"
| "handled_of _ = []"

fun poll_of :: "event \<Rightarrow> nat list" where
  "poll_of (Poll ms) = [ms]"
| "poll_of _ = []"

fun assign_of :: "event \<Rightarrow> (string \<times> partition \<times> offset) list list" where
  "assign_of (Assign tps) = [tps]"
| "assign_of _ = []"

definition assignments :: "event list \<Rightarrow> (string \<times> partition \<times> offset) list list" where
  "assignments tr = concat (map assign_of tr)"

fun produce_of :: "event \<Rightarrow> message list" where
  "produce_of (Produce m) = [m]"
| "produce_of _ = []"

definition handled :: "event list \<Rightarrow> message list" where
  "handled tr = concat (map handled_of tr)"

definition poll_calls :: "event list \<Rightarrow> nat list" where
  "poll_calls tr = concat (map poll_of tr)"

definition produced :: "event list \<Rightarrow> message list" where
  "produced tr = concat (map produce_of tr)"

section \<open>Definitions used in the proofs\<close>

text \<open>
  \<open>Start\<close> written as one loop over a list of subsystems: each enabled subsystem is
  initialised in turn, the loop stops at the first failure and reports the subsystem and
  its error. The proofs show that \<open>Start\<close> is this loop over the declaration order.
\<close>

fun ok_message :: "subsystem \<Rightarrow> string" where
  "ok_message MySQL = ''MySQL connection initialized''"
| "ok_message PostgreSQL = ''PostgreSQL connection initialized''"
| "ok_message Redis = ''Redis connection initialized''"
| "ok_message Elasticsearch = ''Elasticsearch connection initialized''"
| "ok_message Kafka = ''Kafka connection initialized''"

fun run_inits :: "config \<Rightarrow> env \<Rightarrow> subsystem list \<Rightarrow> world \<Rightarrow> world \<times> (subsystem \<times> error) option" where
  "run_inits cfg en [] w = (w, None)"
| "run_inits cfg en (s # ss) w =
     (if enabled cfg s then
        (case Init_of s en w of
           (w1, Some e) \<Rightarrow> (w1, Some (s, e))
         | (w1, None) \<Rightarrow> run_inits cfg en ss (logger_Info (ok_message s) w1))
      else run_inits cfg en ss w)"

text \<open>
  The \<open>Init\<close> events of that loop, from what each \<open>Init\<close> returns.
\<close>

fun init_events :: "config \<Rightarrow> env \<Rightarrow> subsystem list \<Rightarrow> event list" where
  "init_events cfg en [] = []"
| "init_events cfg en (s # ss) =
     (if enabled cfg s then
        (case init_error en s of
           Some e \<Rightarrow> [Init s (Some e)]
         | None \<Rightarrow> Init s None # init_events cfg en ss)
      else init_events cfg en ss)"

text \<open>
  The package variables a \<open>Close\<close> function looks at.
\<close>

definition handles :: "world \<Rightarrow> bool list" where
  "handles w = [mysql_db w, postgres_db w, redis_client w, es_client w,
                kafka_producer w, kafka_consumer w]"

text \<open>
  What the \<open>Close\<close> of a package adds to the trace and what \<open>Shutdown\<close> logs for it,
  from the package variables and the answers of the clients.
\<close>

fun release_events :: "env \<Rightarrow> world \<Rightarrow> subsystem \<Rightarrow> event list" where
  "release_events en w MySQL =
     (if mysql_db w \<and> mysql_sqldb en = None then [Released MySQLConn] else [])"
| "release_events en w PostgreSQL =
     (if postgres_db w \<and> postgres_sqldb en = None then [Released PostgreSQLConn] else [])"
| "release_events en w Redis = (if redis_client w then [Released RedisClient] else [])"
| "release_events en w Elasticsearch = []"
| "release_events en w Kafka =
     (if kafka_producer w then [Released KafkaProducer] else [])
     @ (if kafka_consumer w then [Released KafkaConsumer] else [])"

definition close_events :: "env \<Rightarrow> world \<Rightarrow> subsystem \<Rightarrow> event list" where
  "close_events en w s = release_events en w s @ [Close s (close_error en w s)]"

definition close_log :: "env \<Rightarrow> world \<Rightarrow> subsystem \<Rightarrow> log_entry list" where
  "close_log en w s =
     (case close_error en w s of
        None \<Rightarrow> []
      | Some e \<Rightarrow> [Log ERROR (close_message s) [ArgError e]])"

text \<open>
  The five blocks of \<open>Shutdown\<close> as a fold over a list of subsystems.
\<close>

definition close_all :: "env \<Rightarrow> subsystem list \<Rightarrow> world \<Rightarrow> world" where
  "close_all en ss w = fold (\<lambda>s. close_logged (Close_of s) (close_message s) en) ss w"

text \<open>
  The state after \<open>k\<close> rounds of the polling loop that start with the \<open>i\<close>-th check.
\<close>

fun rounds :: "consume_env \<Rightarrow> (message \<Rightarrow> error option) \<Rightarrow> nat \<Rightarrow> nat \<Rightarrow> world \<Rightarrow> world" where
  "rounds ce handler i 0 w = w"
| "rounds ce handler i (Suc k) w = rounds ce handler (Suc i) k (loop_body ce handler i w)"

text \<open>
  What one round adds to the trace and to the log, for the event it polled.
\<close>

fun round_events :: "poll_event \<Rightarrow> event list" where
  "round_events (MessageEvent m) = [Poll 100, Handled m]"
| "round_events _ = [Poll 100]"

fun round_log :: "(message \<Rightarrow> error option) \<Rightarrow> poll_event \<Rightarrow> log_entry list" where
  "round_log handler (MessageEvent m) =
     (case handler m of
        Some err \<Rightarrow> [Log ERROR ''Error processing message: %v'' [ArgError err]]
      | None \<Rightarrow> [])"
| "round_log handler (ErrorEvent e) = [Log ERROR ''Consumer error: %v'' [ArgError e]]"
| "round_log handler _ = []"

fun message_of :: "poll_event \<Rightarrow> message list" where
  "message_of (MessageEvent m) = [m]"
| "message_of _ = []"

section \<open>Example inputs\<close>

text \<open>
  Two configurations; clients that answer every call with success, and two variations.
\<close>

definition databases_only :: config where
  "databases_only = \<lparr>mysql_enabled = True, postgres_enabled = True, redis_enabled = False,
     elasticsearch_enabled = False, kafka_enabled = False\<rparr>"

definition all_enabled :: config where
  "all_enabled = \<lparr>mysql_enabled = True, postgres_enabled = True, redis_enabled = True,
     elasticsearch_enabled = True, kafka_enabled = True\<rparr>"

definition healthy :: env where
  "healthy = \<lparr>mysql_open = Opened, mysql_sqldb = None, mysql_ping = None, mysql_close = None,
     postgres_open = Opened, postgres_sqldb = None, postgres_ping = None, postgres_close = None,
     redis_ping = None, redis_close = None, es_new = Opened, es_ping = PingStatus False ''200 OK'',
     kafka_new_producer = Opened, kafka_new_consumer = Opened, kafka_consumer_close = None\<rparr>"

definition redis_down :: env where
  "redis_down = healthy\<lparr>redis_ping := Some ''connection refused''\<rparr>"


text \<open>
  The state after a start with the databases only.
\<close>

definition after_start :: world where
  "after_start = fst (Start (SetConfig (Some databases_only) global_initial) healthy initial_world)"


text \<open>
  The state after \<open>kafka.Init\<close> alone; contexts and producer answers.
\<close>

definition messaging_up :: world where
  "messaging_up = fst (kafka_Init healthy initial_world)"

definition cancelled_ctx :: go_context where
  "cancelled_ctx = \<lparr>cancel_tick = Some 0, ctx_error = ''context canceled''\<rparr>"

definition background_ctx :: go_context where
  "background_ctx = \<lparr>cancel_tick = None, ctx_error = []\<rparr>"

definition cancelled_at :: "nat \<Rightarrow> go_context" where
  "cancelled_at n = \<lparr>cancel_tick = Some n, ctx_error = ''context canceled''\<rparr>"

definition no_report :: publish_env where
  "no_report = \<lparr>produce_error = None, delivery = None, delivery_first = False\<rparr>"

definition queue_full :: publish_env where
  "queue_full = \<lparr>produce_error = Some ''Local: Queue full'', delivery = None,
     delivery_first = False\<rparr>"

definition report :: "32 word \<Rightarrow> 64 word \<Rightarrow> publish_env" where
  "report p off = \<lparr>produce_error = None,
     delivery = Some ((envelope ''orders'' ''o-1'' ''amount=10'')
                        \<lparr>msg_partition := PartitionAt p, msg_offset := OffsetAt off\<rparr>),
     delivery_first = True\<rparr>"

text \<open>
  An example broker: a message of partition 0 at the first poll, a broker error at the
  second, a message of partition 1 at the third, a message of partition 0 at the
  fourth, nothing afterwards. The client hands out a message only when its partition is
  assigned.
\<close>

definition order_msg :: "32 word \<Rightarrow> 64 word \<Rightarrow> message" where
  "order_msg p off = (envelope ''orders'' ''o-1'' ''amount=10'')
                        \<lparr>msg_partition := PartitionAt p, msg_offset := OffsetAt off\<rparr>"

definition fetched :: "(string \<times> partition) list \<Rightarrow> message \<Rightarrow> poll_event" where
  "fetched asg m =
     (if (msg_topic m, msg_partition m) \<in> set asg then MessageEvent m else NoEvent)"

definition example_polls :: "nat \<Rightarrow> (string \<times> partition) list \<Rightarrow> poll_event" where
  "example_polls i asg =
     (if i = 0 then fetched asg (order_msg 0 5)
      else if i = 1 then ErrorEvent ''Broker: transport failure''
      else if i = 2 then fetched asg (order_msg 1 9)
      else if i = 3 then fetched asg (order_msg 0 6)
      else NoEvent)"

definition example_broker :: consume_env where
  "example_broker = \<lparr>assign_error = None, unassign_error = None, polls = example_polls\<rparr>"

definition refusing_broker :: consume_env where
  "refusing_broker = \<lparr>assign_error = Some ''Local: Unknown partition'',
     unassign_error = None, polls = example_polls\<rparr>"

definition failing_handler :: "message \<Rightarrow> error option" where
  "failing_handler m = Some ''cannot decode''"

text \<open>
  The consumer of the example inside the loop, assigned to partition 0 of the topic.
\<close>

definition listening :: world where
  "listening = messaging_up\<lparr>assigned := [(''orders'', PartitionAt 0)]\<rparr>"

section \<open>Basic facts about worlds and traces\<close>

lemma logger_Info_fields:
  "trace (logger_Info m w) = trace w"
  "assigned (logger_Info m w) = assigned w"
  "logs (logger_Info m w) = logs w @ [Log INFO m []]"
  "holds_handle (logger_Info m w) s = holds_handle w s"
  by (cases s; simp add: logger_Info_def)+

lemma logger_Error_fields:
  "trace (logger_Error m e w) = trace w"
  "assigned (logger_Error m e w) = assigned w"
  "logs (logger_Error m e w) = logs w @ [Log ERROR m [ArgError e]]"
  "holds_handle (logger_Error m e w) s = holds_handle w s"
  by (cases s; simp add: logger_Error_def)+

lemma emit_fields:
  "trace (emit e w) = trace w @ [e]" "logs (emit e w) = logs w"
  "assigned (emit e w) = assigned w" "kafka_consumer (emit e w) = kafka_consumer w"
  by (simp_all add: emit_def)

lemma handles_log:
  "handles (logger_Info m w) = handles w"
  "handles (logger_Error m e w) = handles w"
  by (simp_all add: handles_def logger_Info_def logger_Error_def)

lemma added_append: "trace w' = trace w @ es \<Longrightarrow> added w w' = es"
  by (simp add: added_def)

lemma added_logs_append: "logs w' = logs w @ ls \<Longrightarrow> added_logs w w' = ls"
  by (simp add: added_logs_def)

lemma obs_append:
  "init_calls (a @ b) = init_calls a @ init_calls b"
  "started (a @ b) = started a @ started b"
  "close_calls (a @ b) = close_calls a @ close_calls b"
  "closings (a @ b) = closings a @ closings b"
  by (simp_all add: init_calls_def started_def close_calls_def closings_def)

lemma obs_Nil:
  "init_calls [] = []" "started [] = []" "close_calls [] = []" "closings [] = []"
  by (simp_all add: init_calls_def started_def close_calls_def closings_def)

lemma obs_Cons:
  "init_calls (e # a) = init_of e @ init_calls a"
  "started (e # a) = started_of e @ started a"
  "close_calls (e # a) = close_of e @ close_calls a"
  "closings (e # a) = closing_of e @ closings a"
  by (simp_all add: init_calls_def started_def close_calls_def closings_def)

lemma msg_obs:
  "handled (a @ b) = handled a @ handled b" "handled [] = []"
  "handled (e # a) = handled_of e @ handled a"
  "poll_calls (a @ b) = poll_calls a @ poll_calls b" "poll_calls [] = []"
  "poll_calls (e # a) = poll_of e @ poll_calls a"
  "produced (a @ b) = produced a @ produced b" "produced [] = []"
  "produced (e # a) = produce_of e @ produced a"
  "assignments (a @ b) = assignments a @ assignments b" "assignments [] = []"
  "assignments (e # a) = assign_of e @ assignments a"
  by (simp_all add: handled_def poll_calls_def produced_def assignments_def)

lemma close_results_append:
  "close_results (a @ b) = close_results a @ close_results b"
  "close_results [] = []"
  "close_results (e # a) = close_result_of e @ close_results a"
  by (simp_all add: close_results_def)

lemmas world_simps = logger_Info_fields logger_Error_fields emit_fields handles_log

lemmas trace_simps = added_append added_logs_append obs_append obs_Nil obs_Cons msg_obs
  close_results_append

section \<open>Properties of the global configuration\<close>

lemma SetConfig_after_first:
  "configOnce g \<Longrightarrow> fold SetConfig cs g = g"
  by (induction cs) (simp_all add: SetConfig_def)

lemma SetConfig_first:
  "fold SetConfig (c # cs) global_initial = \<lparr>configOnce = True, appConfig = c\<rparr>"
  by (simp add: SetConfig_after_first SetConfig_def global_initial_def)

text \<open>
  Claim C9. The configuration is set once: after any sequence of \<open>SetConfig\<close> calls on
  the initial package state, \<open>GetConfig\<close> returns the argument of the first call
  (\<open>nil\<close> when there was no call), the state is the one the first call left, and a
  \<open>SetConfig\<close> that follows another one changes nothing.
\<close>

theorem SetConfig_set_once:
  "GetConfig (fold SetConfig cs global_initial) = (case cs of [] \<Rightarrow> None | c # _ \<Rightarrow> c)
   \<and> (\<forall>c rest. cs = c # rest \<longrightarrow>
          fold SetConfig cs global_initial = SetConfig c global_initial)
   \<and> (\<forall>c d g. SetConfig d (SetConfig c g) = SetConfig c g)"
proof (cases cs)
  case Nil
  then show ?thesis
    by (simp add: GetConfig_def global_initial_def SetConfig_def)
next
  case (Cons c rest)
  have "fold SetConfig (c # rest) global_initial = SetConfig c global_initial"
    by (simp add: SetConfig_after_first SetConfig_def global_initial_def)
  with Cons show ?thesis
    by (simp add: GetConfig_def SetConfig_def global_initial_def)
qed

theorem SetConfig_set_once_witness:
  "GetConfig (fold SetConfig [Some (1::nat), Some 2, None] global_initial) = Some 1
   \<and> fold SetConfig [Some (1::nat), Some 2, None] global_initial
       = SetConfig (Some 1) global_initial
   \<and> GetConfig (fold SetConfig [None, Some (2::nat)] global_initial) = None"
  using SetConfig_set_once [of "[Some (1::nat), Some 2, None]"]
        SetConfig_set_once [of "[None, Some (2::nat)]"]
  by (simp add: GetConfig_def SetConfig_def global_initial_def)

section \<open>Properties of Start and Shutdown\<close>

lemmas pkg_defs = mysql_Init_def mysql_Init_body_def postgres_Init_def postgres_Init_body_def
  redisx_Init_def redisx_Init_body_def elasticsearch_Init_def elasticsearch_Init_body_def
  kafka_Init_def kafka_Init_body_def initProducer_def initConsumer_def returning_def emit_def

lemma Init_of_snd: "snd (Init_of s en w) = init_error en s"
  by (cases s) (simp_all add: init_error_def pkg_defs Let_def
      split: open_outcome.splits option.splits ping_outcome.splits)

lemma Init_of_trace: "trace (fst (Init_of s en w)) = trace w @ [Init s (init_error en s)]"
  by (cases s) (simp_all add: init_error_def pkg_defs Let_def
      split: open_outcome.splits option.splits ping_outcome.splits)

lemma Init_of_logs: "logs (fst (Init_of s en w)) = logs w"
  by (cases s) (simp_all add: pkg_defs Let_def
      split: open_outcome.splits option.splits ping_outcome.splits)

lemma Init_of_assigned: "assigned (fst (Init_of s en w)) = assigned w"
  by (cases s) (simp_all add: pkg_defs Let_def
      split: open_outcome.splits option.splits ping_outcome.splits)

lemma Init_of_handle: "init_error en s = None \<Longrightarrow> holds_handle (fst (Init_of s en w)) s"
  by (cases s) (simp_all add: init_error_def pkg_defs Let_def
      split: open_outcome.splits option.splits ping_outcome.splits if_splits)

lemma Init_of_others: "s' \<noteq> s \<Longrightarrow> holds_handle (fst (Init_of s en w)) s' = holds_handle w s'"
  by (cases s; cases s') (simp_all add: pkg_defs Let_def
      split: open_outcome.splits option.splits ping_outcome.splits)

lemma run_inits_append:
  "run_inits cfg en (xs @ ys) w =
     (case run_inits cfg en xs w of
        (w', None) \<Rightarrow> run_inits cfg en ys w'
      | (w', Some f) \<Rightarrow> (w', Some f))"
  by (induction xs arbitrary: w) (simp_all split: prod.splits option.splits)

lemma initDatabases_run:
  "GetConfig g = Some cfg \<Longrightarrow>
   initDatabases g en w =
     (case run_inits cfg en [MySQL, PostgreSQL] w of
        (w', None) \<Rightarrow> (w', Success)
      | (w', Some (s, e)) \<Rightarrow> (w', Failure (subsystem_prefix s @ e)))"
  by (auto simp add: initDatabases_def guarded_init_def split: prod.splits option.splits)

lemma initCache_run:
  "GetConfig g = Some cfg \<Longrightarrow>
   initCache g en w =
     (case run_inits cfg en [Redis] w of
        (w', None) \<Rightarrow> (w', Success)
      | (w', Some (s, e)) \<Rightarrow> (w', Failure (subsystem_prefix s @ e)))"
  by (auto simp add: initCache_def guarded_init_def split: prod.splits option.splits)

lemma initElasticsearch_run:
  "GetConfig g = Some cfg \<Longrightarrow>
   initElasticsearch g en w =
     (case run_inits cfg en [Elasticsearch] w of
        (w', None) \<Rightarrow> (w', Success)
      | (w', Some (s, e)) \<Rightarrow> (w', Failure (subsystem_prefix s @ e)))"
  by (auto simp add: initElasticsearch_def guarded_init_def split: prod.splits option.splits)

lemma initKafka_run:
  "GetConfig g = Some cfg \<Longrightarrow>
   initKafka g en w =
     (case run_inits cfg en [Kafka] w of
        (w', None) \<Rightarrow> (w', Success)
      | (w', Some (s, e)) \<Rightarrow> (w', Failure (subsystem_prefix s @ e)))"
  by (auto simp add: initKafka_def guarded_init_def split: prod.splits option.splits)

lemma order_split:
  "declaration_order = [MySQL, PostgreSQL] @ [Redis] @ [Elasticsearch] @ [Kafka]"
  by (simp add: declaration_order_def)

lemma Start_run_inits:
  assumes cfg: "GetConfig g = Some cfg"
  shows "Start g en w =
     (case run_inits cfg en declaration_order (logger_Info ''Starting application bootstrap...'' w) of
        (w', None) \<Rightarrow> (logger_Info ''Application bootstrap completed successfully'' w', Success)
      | (w', Some (s, e)) \<Rightarrow> (w', Failure (stage_prefix s @ subsystem_prefix s @ e)))"
proof -
  obtain w1 r1 where s1: "run_inits cfg en [MySQL, PostgreSQL]
      (logger_Info ''Starting application bootstrap...'' w) = (w1, r1)" by fastforce
  obtain w2 r2 where s2: "run_inits cfg en [Redis] w1 = (w2, r2)" by fastforce
  obtain w3 r3 where s3: "run_inits cfg en [Elasticsearch] w2 = (w3, r3)" by fastforce
  obtain w4 r4 where s4: "run_inits cfg en [Kafka] w3 = (w4, r4)" by fastforce
  have f1: "\<And>s e. r1 = Some (s, e) \<Longrightarrow> stage_prefix s = ''failed to initialize databases: ''"
    using s1 by (auto split: if_splits prod.splits option.splits)
  have f2: "\<And>s e. r2 = Some (s, e) \<Longrightarrow> stage_prefix s = ''failed to initialize cache: ''"
    using s2 by (auto split: if_splits prod.splits option.splits)
  have f3: "\<And>s e. r3 = Some (s, e) \<Longrightarrow> stage_prefix s = ''failed to initialize Elasticsearch: ''"
    using s3 by (auto split: if_splits prod.splits option.splits)
  have f4: "\<And>s e. r4 = Some (s, e) \<Longrightarrow> stage_prefix s = ''failed to initialize Kafka: ''"
    using s4 by (auto split: if_splits prod.splits option.splits)
  have lhs: "Start g en w =
     (case r1 of Some (s, e) \<Rightarrow> (w1, Failure (''failed to initialize databases: '' @ subsystem_prefix s @ e))
      | None \<Rightarrow> (case r2 of Some (s, e) \<Rightarrow> (w2, Failure (''failed to initialize cache: '' @ subsystem_prefix s @ e))
      | None \<Rightarrow> (case r3 of Some (s, e) \<Rightarrow> (w3, Failure (''failed to initialize Elasticsearch: '' @ subsystem_prefix s @ e))
      | None \<Rightarrow> (case r4 of Some (s, e) \<Rightarrow> (w4, Failure (''failed to initialize Kafka: '' @ subsystem_prefix s @ e))
      | None \<Rightarrow> (logger_Info ''Application bootstrap completed successfully'' w4, Success)))))"
    by (simp add: Start_def stage_def initDatabases_run [OF cfg] initCache_run [OF cfg]
      initElasticsearch_run [OF cfg] initKafka_run [OF cfg] s1 s2 s3 s4
      del: run_inits.simps split: option.splits)
  have rhs: "run_inits cfg en declaration_order (logger_Info ''Starting application bootstrap...'' w) =
     (case r1 of Some f \<Rightarrow> (w1, Some f)
      | None \<Rightarrow> (case r2 of Some f \<Rightarrow> (w2, Some f)
      | None \<Rightarrow> (case r3 of Some f \<Rightarrow> (w3, Some f)
      | None \<Rightarrow> (w4, r4))))"
    unfolding order_split run_inits_append
    by (simp add: s1 s2 s3 s4 del: run_inits.simps split: option.splits)
  show ?thesis
    unfolding lhs rhs
    using f1 f2 f3 f4 by (auto split: option.splits)
qed

lemma Init_of_cases:
  obtains w1 where "Init_of s en w = (w1, init_error en s)"
    "trace w1 = trace w @ [Init s (init_error en s)]"
    "logs w1 = logs w" "assigned w1 = assigned w"
  using Init_of_snd [of s en w] Init_of_trace [of s en w] Init_of_logs [of s en w]
    Init_of_assigned [of s en w]
  by (cases "Init_of s en w") auto

lemma run_inits_trace:
  "trace (fst (run_inits cfg en ss w)) = trace w @ init_events cfg en ss"
proof (induction ss arbitrary: w)
  case Nil
  show ?case by simp
next
  case (Cons s ss)
  obtain w1 where w1: "Init_of s en w = (w1, init_error en s)"
    "trace w1 = trace w @ [Init s (init_error en s)]"
    by (rule Init_of_cases)
  show ?case
    using Cons.IH [of w] Cons.IH [of "logger_Info (ok_message s) w1"] w1
    by (cases "init_error en s") (simp_all add: world_simps trace_simps)
qed

lemma init_events_closings: "closings (init_events cfg en ss) = []"
  by (induction ss) (simp_all add: trace_simps split: option.splits)

lemma init_events_close_calls: "close_calls (init_events cfg en ss) = []"
  by (induction ss) (simp_all add: trace_simps split: option.splits)

text \<open>The shape of a run that fails at \<open>k\<close>.\<close>

lemma init_events_failure:
  assumes "enabled cfg k" "init_error en k = Some cause"
    and "\<forall>s \<in> set before. enabled cfg s \<longrightarrow> init_error en s = None"
  shows "init_events cfg en (before @ k # rest) =
           map (\<lambda>s. Init s None) (filter (enabled cfg) before) @ [Init k (Some cause)]"
  using assms by (induction before) simp_all

lemma run_inits_failure:
  assumes "enabled cfg k" "init_error en k = Some cause"
    and "\<forall>s \<in> set before. enabled cfg s \<longrightarrow> init_error en s = None"
  shows "snd (run_inits cfg en (before @ k # rest) w) = Some (k, cause)"
  using assms
proof (induction before arbitrary: w)
  case Nil
  obtain w1 where "Init_of k en w = (w1, init_error en k)" by (rule Init_of_cases)
  with Nil show ?case by simp
next
  case (Cons s before)
  obtain w1 where w1: "Init_of s en w = (w1, init_error en s)" by (rule Init_of_cases)
  show ?case
  proof (cases "enabled cfg s")
    case True
    with Cons.prems have "init_error en s = None" by simp
    with True w1 Cons show ?thesis by simp
  next
    case False
    with Cons show ?thesis by simp
  qed
qed

lemma run_inits_keeps_handle:
  assumes "holds_handle w s" "enabled cfg s \<longrightarrow> init_error en s = None"
  shows "holds_handle (fst (run_inits cfg en ss w)) s"
  using assms
proof (induction ss arbitrary: w)
  case Nil
  then show ?case by simp
next
  case (Cons x ss)
  have step: "holds_handle (fst (Init_of x en w)) s" if "enabled cfg x"
  proof (cases "x = s")
    case True
    with that Cons.prems show ?thesis by (simp add: Init_of_handle)
  next
    case False
    with Cons.prems show ?thesis by (simp add: Init_of_others)
  qed
  show ?case
  proof (cases "enabled cfg x")
    case False
    with Cons show ?thesis by simp
  next
    case True
    obtain w1 where w1: "Init_of x en w = (w1, init_error en x)" by (rule Init_of_cases)
    from step [OF True] w1 have h: "holds_handle w1 s" by simp
    show ?thesis
    proof (cases "init_error en x")
      case None
      with True w1 h Cons.IH [of "logger_Info (ok_message x) w1"] Cons.prems(2)
      show ?thesis by (simp add: world_simps trace_simps)
    next
      case (Some e)
      with True w1 h show ?thesis by simp
    qed
  qed
qed

lemma run_inits_handles:
  assumes "\<forall>s \<in> set before. enabled cfg s \<longrightarrow> init_error en s = None"
    and "s \<in> set before" "enabled cfg s"
  shows "holds_handle (fst (run_inits cfg en (before @ rest) w)) s"
  using assms
proof (induction before arbitrary: w)
  case Nil
  then show ?case by simp
next
  case (Cons x before)
  obtain w1 where w1: "Init_of x en w = (w1, init_error en x)" by (rule Init_of_cases)
  show ?case
  proof (cases "x = s")
    case True
    with Cons.prems have ok: "init_error en s = None" by simp
    have "holds_handle w1 s"
      using Init_of_handle [OF ok, of w] w1 True by simp
    then have "holds_handle (fst (run_inits cfg en (before @ rest) (logger_Info (ok_message s) w1))) s"
      using ok by (intro run_inits_keeps_handle) (simp_all add: world_simps trace_simps)
    with True w1 ok Cons.prems show ?thesis by simp
  next
    case False
    with Cons.prems have mem: "s \<in> set before" by simp
    show ?thesis
    proof (cases "enabled cfg x")
      case en: True
      with Cons.prems have "init_error en x = None" by simp
      with en w1 Cons.IH [of "logger_Info (ok_message x) w1"] Cons.prems mem
      show ?thesis by simp
    next
      case False
      with Cons.IH [of w] Cons.prems mem show ?thesis by simp
    qed
  qed
qed

text \<open>
  Claim C4. Let \<open>k\<close> be a subsystem of the declaration order that is enabled and whose
  \<open>Init\<close> fails with \<open>cause\<close>, while every enabled subsystem before it initialises. Then
  \<open>Start\<close> returns the error that names the stage and the subsystem in front of the cause;
  it has called \<open>Init\<close> for the enabled subsystems before \<open>k\<close> and for \<open>k\<close>, and for none
  after \<open>k\<close>; the subsystems before \<open>k\<close> are the started ones and still hold their
  handles; and \<open>Start\<close> has closed nothing.
\<close>

theorem Start_stops_at_first_failure:
  assumes "GetConfig g = Some cfg"
    and "declaration_order = before @ k # rest"
    and "enabled cfg k" and "init_error en k = Some cause"
    and "\<forall>s \<in> set before. enabled cfg s \<longrightarrow> init_error en s = None"
  shows "snd (Start g en w) = Failure (stage_prefix k @ subsystem_prefix k @ cause)
       \<and> init_calls (added w (fst (Start g en w))) = filter (enabled cfg) before @ [k]
       \<and> (\<forall>s \<in> set rest. s \<notin> set (init_calls (added w (fst (Start g en w)))))
       \<and> started (added w (fst (Start g en w))) = filter (enabled cfg) before
       \<and> closings (added w (fst (Start g en w))) = []
       \<and> (\<forall>s \<in> set before. enabled cfg s \<longrightarrow> holds_handle (fst (Start g en w)) s)"
proof -
  let ?w0 = "logger_Info ''Starting application bootstrap...'' w"
  let ?run = "run_inits cfg en declaration_order ?w0"
  have res: "snd ?run = Some (k, cause)"
    unfolding assms(2) using assms(3-5) by (rule run_inits_failure)
  then obtain w' where run: "?run = (w', Some (k, cause))"
    by (cases ?run) simp
  have start: "Start g en w = (w', Failure (stage_prefix k @ subsystem_prefix k @ cause))"
    by (simp add: Start_run_inits [OF assms(1)] run)
  have "trace w' = trace w @ init_events cfg en declaration_order"
    using run_inits_trace [of cfg en declaration_order ?w0] run by (simp add: world_simps
        trace_simps)
  then have tr: "added w w' =
      map (\<lambda>s. Init s None) (filter (enabled cfg) before) @ [Init k (Some cause)]"
    unfolding assms(2) init_events_failure [OF assms(3-5)] by (simp add: trace_simps)
  have ic: "init_calls (map (\<lambda>s. Init s None) xs) = xs" for xs
    by (induction xs) (simp_all add: trace_simps)
  have st: "started (map (\<lambda>s. Init s None) xs) = xs" for xs
    by (induction xs) (simp_all add: trace_simps)
  have cl: "closings (map (\<lambda>s. Init s None) xs) = []" for xs
    by (induction xs) (simp_all add: trace_simps)
  have "distinct (before @ k # rest)"
    unfolding assms(2) [symmetric] by (simp add: declaration_order_def)
  then have disj: "\<forall>s \<in> set rest. s \<notin> set before \<and> s \<noteq> k" by auto
  have hh: "\<forall>s \<in> set before. enabled cfg s \<longrightarrow> holds_handle w' s"
  proof (intro ballI impI)
    fix s assume "s \<in> set before" "enabled cfg s"
    with assms(5) have "holds_handle (fst (run_inits cfg en (before @ k # rest) ?w0)) s"
      by (intro run_inits_handles) simp_all
    with run show "holds_handle w' s" unfolding assms(2) by simp
  qed
  show ?thesis
    using disj hh by (simp add: trace_simps start tr ic st cl)
qed

lemmas close_defs = mysql_Close_def mysql_Close_body_def postgres_Close_def
  postgres_Close_body_def redisx_Close_def redisx_Close_body_def elasticsearch_Close_def
  kafka_Close_def kafka_Close_body_def returning_def emit_def

lemma Close_of_trace:
  "trace (fst (Close_of s en w)) = trace w @ close_events en w s"
  by (cases s) (simp_all add: close_events_def close_error_def close_defs Let_def
      split: option.splits)

lemma Close_of_rest:
  "handles (fst (Close_of s en w)) = handles w"
  "logs (fst (Close_of s en w)) = logs w"
  "assigned (fst (Close_of s en w)) = assigned w"
  by (cases s; simp add: handles_def close_defs Let_def split: option.splits)+

lemma close_depends_on_handles:
  assumes "handles w' = handles w"
  shows "close_error en w' s = close_error en w s"
    and "release_events en w' s = release_events en w s"
  using assms
  by (cases s; simp add: handles_def close_error_def close_defs Let_def split: option.splits)+

lemma close_logged_step:
  fixes s en w
  defines "w' \<equiv> close_logged (Close_of s) (close_message s) en w"
  shows "trace w' = trace w @ close_events en w s"
    and "logs w' = logs w @ close_log en w s"
    and "handles w' = handles w"
    and "assigned w' = assigned w"
proof -
  obtain w1 r where c: "Close_of s en w = (w1, r)" by fastforce
  then have r: "r = close_error en w s" by (simp add: close_error_def)
  from c have f: "trace w1 = trace w @ close_events en w s" "logs w1 = logs w"
    "handles w1 = handles w" "assigned w1 = assigned w"
    using Close_of_trace [of s en w] Close_of_rest [of s en w] by simp_all
  show "trace w' = trace w @ close_events en w s"
    and "logs w' = logs w @ close_log en w s"
    and "handles w' = handles w"
    and "assigned w' = assigned w"
    using f r by (simp_all add: world_simps trace_simps w'_def close_logged_def c close_log_def
        split: option.splits)
qed

lemma close_all_run:
  assumes "handles w0 = handles w"
  shows "trace (close_all en ss w0) = trace w0 @ concat (map (close_events en w) ss)
       \<and> logs (close_all en ss w0) = logs w0 @ concat (map (close_log en w) ss)
       \<and> handles (close_all en ss w0) = handles w
       \<and> assigned (close_all en ss w0) = assigned w0"
  using assms
proof (induction ss arbitrary: w0)
  case Nil
  then show ?case by (simp add: close_all_def)
next
  case (Cons s ss)
  let ?w1 = "close_logged (Close_of s) (close_message s) en w0"
  have h1: "handles ?w1 = handles w" using close_logged_step(3) [of s en w0] Cons.prems by simp
  have same: "close_events en w0 s = close_events en w s" "close_log en w0 s = close_log en w s"
    using close_depends_on_handles [OF Cons.prems, of en s]
    by (simp_all add: close_events_def close_log_def)
  have unfold: "close_all en (s # ss) w0 = close_all en ss ?w1"
    by (simp add: close_all_def)
  show ?case
    unfolding unfold
    using Cons.IH [OF h1] close_logged_step [of s en w0] same by simp
qed

lemma Shutdown_close_all:
  "Shutdown en w =
     (logger_Info ''Graceful shutdown completed''
        (close_all en declaration_order (logger_Info ''Starting graceful shutdown...'' w)), None)"
  by (simp add: Shutdown_def close_all_def declaration_order_def Let_def)

lemma Shutdown_effect:
  "snd (Shutdown en w) = None"
  "trace (fst (Shutdown en w)) = trace w @ concat (map (close_events en w) declaration_order)"
  "logs (fst (Shutdown en w)) =
     logs w @ Log INFO ''Starting graceful shutdown...'' []
       # concat (map (close_log en w) declaration_order)
       @ [Log INFO ''Graceful shutdown completed'' []]"
  "handles (fst (Shutdown en w)) = handles w"
  "assigned (fst (Shutdown en w)) = assigned w"
  using close_all_run [of "logger_Info ''Starting graceful shutdown...'' w" w en declaration_order]
  by (simp_all add: world_simps trace_simps Shutdown_close_all)

lemma Start_trace:
  assumes "GetConfig g = Some cfg"
  shows "trace (fst (Start g en w)) = trace w @ init_events cfg en declaration_order"
  using run_inits_trace [of cfg en declaration_order
      "logger_Info ''Starting application bootstrap...'' w"]
  by (auto simp add: world_simps trace_simps Start_run_inits [OF assms] split: prod.splits
      option.splits)

lemma Start_without_config:
  assumes "GetConfig g = None"
  shows "Start g en w = (logger_Info ''Starting application bootstrap...'' w, Panic)"
  using assms by (simp add: Start_def stage_def initDatabases_def)

lemma started_init_events_subset:
  "set (started (init_events cfg en ss)) \<subseteq> set ss"
  by (induction ss) (auto simp add: trace_simps split: option.splits)

lemma started_in_order:
  "distinct ss \<Longrightarrow>
   filter (\<lambda>s. s \<in> set (started (init_events cfg en ss))) ss = started (init_events cfg en ss)"
proof (induction ss)
  case Nil
  show ?case by (simp add: world_simps trace_simps)
next
  case (Cons x ss)
  let ?st = "started (init_events cfg en ss)"
  from Cons.prems have x: "x \<notin> set ?st"
    using started_init_events_subset [of cfg en ss] by auto
  from Cons have IH: "filter (\<lambda>s. s \<in> set ?st) ss = ?st" by simp
  have ins: "filter (\<lambda>s. s = x \<or> s \<in> set ?st) ss = filter (\<lambda>s. s \<in> set ?st) ss"
    using Cons.prems by (intro filter_cong) auto
  show ?case
  proof (cases "enabled cfg x")
    case False
    with x IH show ?thesis by simp
  next
    case True
    then show ?thesis
      using x IH ins by (cases "init_error en x") (simp_all add: trace_simps)
  qed
qed

lemma close_calls_close_events:
  "close_calls (concat (map (close_events en w) ss)) = ss"
proof (induction ss)
  case Nil
  show ?case by (simp add: trace_simps)
next
  case (Cons s ss)
  have "close_calls (release_events en w s) = []"
    by (cases s) (simp_all add: trace_simps)
  with Cons show ?case by (simp add: close_events_def trace_simps)
qed

lemma Start_started_in_order:
  "filter (\<lambda>s. s \<in> set (started (added w (fst (Start g en w))))) declaration_order
     = started (added w (fst (Start g en w)))"
proof (cases "GetConfig g")
  case None
  then show ?thesis by (simp add: world_simps trace_simps Start_without_config added_def)
next
  case (Some cfg)
  have "distinct declaration_order" by (simp add: declaration_order_def)
  then show ?thesis
    using Start_trace [OF Some, of en w] by (simp add: started_in_order trace_simps)
qed

lemma Shutdown_close_calls:
  "close_calls (added w (fst (Shutdown en w))) = declaration_order"
  by (simp add: close_calls_close_events world_simps trace_simps Shutdown_effect)

text \<open>
  Claim C1, as the code has it. \<open>Shutdown\<close> calls the \<open>Close\<close> of all five packages in
  the fixed order MySQL, PostgreSQL, Redis, Elasticsearch, Kafka, started or not. That is
  the order in which \<open>Start\<close> initialises them, so the subsystems \<open>Start\<close> has started
  are closed in the order of their initialisation, not in its reverse.
\<close>

theorem Shutdown_closes_in_declaration_order:
  "close_calls (added w1 (fst (Shutdown en' w1))) = declaration_order
   \<and> filter (\<lambda>s. s \<in> set (started (added w (fst (Start g en w)))))
        (close_calls (added (fst (Start g en w)) (fst (Shutdown en' (fst (Start g en w))))))
       = started (added w (fst (Start g en w)))"
  by (simp add: Shutdown_close_calls Start_started_in_order)

lemma healthy_init: "init_error healthy s = None"
  by (cases s) (simp_all add: init_error_def pkg_defs healthy_def initial_world_def)

lemma SetConfig_initial: "GetConfig (SetConfig (Some c) global_initial) = Some c"
  by (simp add: GetConfig_def SetConfig_def global_initial_def)

lemma after_start_started: "started (added initial_world after_start) = [MySQL, PostgreSQL]"
  unfolding after_start_def
  using Start_trace [of "SetConfig (Some databases_only) global_initial" databases_only
      healthy initial_world]
  by (simp add: healthy_init SetConfig_initial world_simps trace_simps declaration_order_def
      databases_only_def)

text \<open>
  The theorem after a start with MySQL and PostgreSQL enabled.
\<close>

theorem Shutdown_closes_in_declaration_order_witness:
  "close_calls (added after_start (fst (Shutdown healthy after_start)))
     = [MySQL, PostgreSQL, Redis, Elasticsearch, Kafka]
   \<and> filter (\<lambda>s. s \<in> set [MySQL, PostgreSQL])
        (close_calls (added after_start (fst (Shutdown healthy after_start))))
       = [MySQL, PostgreSQL]"
  using Shutdown_closes_in_declaration_order [of after_start healthy initial_world
      "SetConfig (Some databases_only) global_initial" healthy]
  by (simp add: after_start_started declaration_order_def after_start_def [symmetric])

text \<open>
  Claim C1 as stated fails: after that start MySQL was initialised before PostgreSQL,
  and \<open>Shutdown\<close> closes MySQL before PostgreSQL.
\<close>

theorem Shutdown_reverse_order_counterexample:
  "started (added initial_world after_start) = [MySQL, PostgreSQL]
   \<and> filter (\<lambda>s. s \<in> set (started (added initial_world after_start)))
        (close_calls (added after_start (fst (Shutdown healthy after_start))))
       = [MySQL, PostgreSQL]
   \<and> filter (\<lambda>s. s \<in> set (started (added initial_world after_start)))
        (close_calls (added after_start (fst (Shutdown healthy after_start))))
       \<noteq> rev (started (added initial_world after_start))"
  by (simp add: after_start_started Shutdown_close_calls declaration_order_def)

lemma redis_down_init:
  "init_error redis_down MySQL = None"
  "init_error redis_down PostgreSQL = None"
  "init_error redis_down Redis = Some ''failed to connect to Redis: connection refused''"
  by (simp_all add: init_error_def pkg_defs redis_down_def healthy_def initial_world_def)

text \<open>
  The theorem at a run where every subsystem is enabled and the Redis ping fails: MySQL
  and PostgreSQL stay started, Elasticsearch and Kafka are never initialised.
\<close>

theorem Start_stops_at_first_failure_witness:
  "snd (Start (SetConfig (Some all_enabled) global_initial) redis_down initial_world)
     = Failure (''failed to initialize cache: failed to initialize Redis: ''
                @ ''failed to connect to Redis: connection refused'')
   \<and> init_calls (added initial_world
         (fst (Start (SetConfig (Some all_enabled) global_initial) redis_down initial_world)))
       = [MySQL, PostgreSQL, Redis]
   \<and> started (added initial_world
         (fst (Start (SetConfig (Some all_enabled) global_initial) redis_down initial_world)))
       = [MySQL, PostgreSQL]
   \<and> closings (added initial_world
         (fst (Start (SetConfig (Some all_enabled) global_initial) redis_down initial_world)))
       = []
   \<and> holds_handle
         (fst (Start (SetConfig (Some all_enabled) global_initial) redis_down initial_world)) MySQL
   \<and> holds_handle
         (fst (Start (SetConfig (Some all_enabled) global_initial) redis_down initial_world))
         PostgreSQL"
  using Start_stops_at_first_failure [of "SetConfig (Some all_enabled) global_initial"
      all_enabled "[MySQL, PostgreSQL]" Redis "[Elasticsearch, Kafka]" redis_down
      "''failed to connect to Redis: connection refused''" initial_world]
  by (simp add: redis_down_init SetConfig_initial world_simps trace_simps declaration_order_def
      all_enabled_def)











section \<open>Properties of PublishMessage and ConsumeMessages\<close>

lemma loop_body_effect:
  "trace (loop_body ce h i w) = trace w @ round_events (polls ce i (assigned w))"
  "logs (loop_body ce h i w) = logs w @ round_log h (polls ce i (assigned w))"
  "assigned (loop_body ce h i w) = assigned w"
  by (cases "polls ce i (assigned w)";
      simp add: loop_body_def consumer_Poll_def emit_def logger_Errorf_def Let_def
        split: option.splits)+

lemma rounds_effect:
  "trace (rounds ce h i k w)
     = trace w @ concat (map (\<lambda>j. round_events (polls ce j (assigned w))) [i..<i + k])
   \<and> logs (rounds ce h i k w)
     = logs w @ concat (map (\<lambda>j. round_log h (polls ce j (assigned w))) [i..<i + k])
   \<and> assigned (rounds ce h i k w) = assigned w"
proof (induction k arbitrary: i w)
  case 0
  show ?case by simp
next
  case (Suc k)
  have "[i..<i + Suc k] = i # [Suc i..<Suc i + k]"
    by (simp add: upt_conv_Cons)
  then show ?case
    using Suc.IH [of "Suc i" "loop_body ce h i w"]
    by (simp add: loop_body_effect)
qed

lemma poll_loop_cancelled:
  assumes "cancel_tick ctx = Some n"
  shows "i \<le> n \<Longrightarrow>
    poll_loop ctx ce h i w = Some (rounds ce h i (n - i) w, Some (ctx_error ctx))"
proof (induction "n - i" arbitrary: i w)
  case 0
  then have "i = n" by simp
  then show ?case
    using assms by (subst poll_loop.simps) (simp add: cancelled_by_def)
next
  case (Suc d)
  then have lt: "i < n" and d: "d = n - Suc i" by simp_all
  from lt have step: "n - i = Suc (n - Suc i)" by simp
  have "poll_loop ctx ce h i w = poll_loop ctx ce h (Suc i) (loop_body ce h i w)"
    using assms lt by (subst poll_loop.simps) (simp add: cancelled_by_def)
  also have "\<dots> = Some (rounds ce h (Suc i) (n - Suc i) (loop_body ce h i w),
                         Some (ctx_error ctx))"
    using Suc.hyps(1) [OF d] lt by simp
  finally show ?case by (simp add: step)
qed

lemma poll_loop_returns_only_cancelled:
  assumes "poll_loop ctx ce h i w = Some p"
  shows "cancel_tick ctx \<noteq> None \<and> snd p = Some (ctx_error ctx)"
  by (rule poll_loop.raw_induct [where P = "\<lambda>ctx ce h i w p.
        cancel_tick ctx \<noteq> None \<and> snd p = Some (ctx_error ctx)", OF _ assms])
     (auto simp add: cancelled_by_def split: if_splits option.splits)

lemma messaging_up_fields:
  "kafka_producer messaging_up" "kafka_consumer messaging_up"
  "trace messaging_up = [Init Kafka None]" "logs messaging_up = []"
  "assigned messaging_up = []"
  by (simp_all add: messaging_up_def pkg_defs healthy_def initial_world_def)

text \<open>
  Claim C5, as the code has it. \<open>PublishMessage\<close> does not look at the context before it
  submits: with a context that is cancelled before the call and a producer that exists,
  it calls \<open>Produce\<close> once with the envelope and always returns. It returns the error of
  a rejected submission when \<open>Produce\<close> fails, and the context's error when the
  submission was accepted and the \<open>select\<close> takes the cancellation, as it must when no
  delivery report is there.
\<close>

theorem Publish_with_cancelled_context:
  assumes "cancel_tick ctx = Some 0" and "kafka_producer w"
  shows "(\<exists>w' r. PublishMessage ctx pe topic key payload w = Some (w', r)
            \<and> produced (added w w') = [envelope topic key payload])
       \<and> (\<forall>e. produce_error pe = Some e \<longrightarrow>
            PublishMessage ctx pe topic key payload w
              = Some (emit (Produce (envelope topic key payload)) w,
                      Some (''failed to produce message to topic '' @ topic @ '': '' @ e)))
       \<and> (produce_error pe = None \<and> (delivery pe = None \<or> \<not> delivery_first pe) \<longrightarrow>
            PublishMessage ctx pe topic key payload w
              = Some (emit (Produce (envelope topic key payload)) w, Some (ctx_error ctx)))"
proof -
  have sel: "select_delivery (delivery pe) True (delivery_first pe) \<noteq> Blocked"
    by (cases "delivery pe") simp_all
  have tr: "trace (logger_Infof t args w0) = trace w0" for t args w0
    by (simp add: logger_Infof_def)
  have first: "\<exists>w' r. PublishMessage ctx pe topic key payload w = Some (w', r)
            \<and> produced (added w w') = [envelope topic key payload]"
    using assms sel
    by (cases "select_delivery (delivery pe) True (delivery_first pe)")
       (auto simp add: world_simps trace_simps PublishMessage_def Let_def tr split: option.splits)
  have third: "produce_error pe = None \<and> (delivery pe = None \<or> \<not> delivery_first pe) \<longrightarrow>
            PublishMessage ctx pe topic key payload w
              = Some (emit (Produce (envelope topic key payload)) w, Some (ctx_error ctx))"
    using assms
    by (cases "delivery pe") (auto simp add: PublishMessage_def Let_def)
  show ?thesis
    using first third assms by (simp add: PublishMessage_def Let_def)
qed

text \<open>
  The theorem at a publish with a cancelled context: once with a producer that rejects
  the message, once with no delivery report.
\<close>

theorem Publish_with_cancelled_context_witness:
  "PublishMessage cancelled_ctx queue_full ''orders'' ''o-1'' ''amount=10'' messaging_up
     = Some (emit (Produce (envelope ''orders'' ''o-1'' ''amount=10'')) messaging_up,
             Some ''failed to produce message to topic orders: Local: Queue full'')
   \<and> PublishMessage cancelled_ctx no_report ''orders'' ''o-1'' ''amount=10'' messaging_up
     = Some (emit (Produce (envelope ''orders'' ''o-1'' ''amount=10'')) messaging_up,
             Some ''context canceled'')"
  using Publish_with_cancelled_context [of cancelled_ctx messaging_up queue_full
          "''orders''" "''o-1''" "''amount=10''"]
        Publish_with_cancelled_context [of cancelled_ctx messaging_up no_report
          "''orders''" "''o-1''" "''amount=10''"]
  by (simp add: messaging_up_fields world_simps trace_simps cancelled_ctx_def queue_full_def
      no_report_def)

text \<open>
  Claim C5 as stated fails: with the context cancelled before the call, the message is
  handed to \<open>Produce\<close> all the same, before \<open>PublishMessage\<close> returns the context's error.
\<close>

theorem Publish_cancelled_counterexample:
  "cancel_tick cancelled_ctx = Some 0
   \<and> map_option snd
        (PublishMessage cancelled_ctx no_report ''orders'' ''o-1'' ''amount=10'' messaging_up)
       = Some (Some ''context canceled'')
   \<and> map_option (\<lambda>p. produced (added messaging_up (fst p)))
        (PublishMessage cancelled_ctx no_report ''orders'' ''o-1'' ''amount=10'' messaging_up)
       = Some [envelope ''orders'' ''o-1'' ''amount=10'']"
  by (simp add: messaging_up_fields world_simps trace_simps PublishMessage_def
      cancelled_ctx_def no_report_def Let_def)

text \<open>
  Claim C6, as the code has it. When the producer exists, the submission is accepted and
  the \<open>select\<close> receives a delivery report without error, \<open>PublishMessage\<close> returns
  \<open>nil\<close>; the partition and the offset of the report go to the log line, exactly as
  reported, and nowhere else: the function returns an error value only.
\<close>

theorem Publish_delivered_logs_partition_offset:
  assumes "kafka_producer w" and "produce_error pe = None" and "delivery pe = Some m"
    and "msg_error m = None" and "cancel_tick ctx = None \<or> delivery_first pe"
  shows "\<exists>w'. PublishMessage ctx pe topic key payload w = Some (w', None)
          \<and> added w w' = [Produce (envelope topic key payload)]
          \<and> added_logs w w'
              = [Log INFO ''Message sent to topic %s, partition %d, offset %v''
                   [ArgString topic, ArgPartition (msg_partition m), ArgOffset (msg_offset m)]]"
  using assms
  by (auto simp add: PublishMessage_def Let_def logger_Infof_def emit_def added_def
      added_logs_def)

theorem Publish_delivered_logs_partition_offset_witness:
  "\<exists>w'. PublishMessage background_ctx (report 3 42) ''orders'' ''o-1'' ''amount=10'' messaging_up
           = Some (w', None)
        \<and> added messaging_up w' = [Produce (envelope ''orders'' ''o-1'' ''amount=10'')]
        \<and> added_logs messaging_up w'
            = [Log INFO ''Message sent to topic %s, partition %d, offset %v''
                 [ArgString ''orders'', ArgPartition (PartitionAt 3), ArgOffset (OffsetAt 42)]]"
  using Publish_delivered_logs_partition_offset [of messaging_up "report 3 42"
      "(envelope ''orders'' ''o-1'' ''amount=10'')
         \<lparr>msg_partition := PartitionAt 3, msg_offset := OffsetAt 42\<rparr>"
      background_ctx "''orders''" "''o-1''" "''amount=10''"]
  by (simp add: messaging_up_fields world_simps trace_simps report_def background_ctx_def
      envelope_def)

text \<open>
  Claim C6 as stated fails: two publishes whose delivery reports carry different
  partitions and offsets return the same value, \<open>nil\<close>; the caller gets no partition and
  no offset back.
\<close>

theorem Publish_delivery_result_counterexample:
  "map_option snd
     (PublishMessage background_ctx (report 3 42) ''orders'' ''o-1'' ''amount=10'' messaging_up)
     = Some None
   \<and> map_option snd
     (PublishMessage background_ctx (report 0 7) ''orders'' ''o-1'' ''amount=10'' messaging_up)
     = Some None
   \<and> delivery (report 3 42) \<noteq> delivery (report 0 7)"
  by (simp add: messaging_up_fields world_simps trace_simps PublishMessage_def report_def
      background_ctx_def envelope_def Let_def)

lemma obs_concat:
  "handled (concat (map (\<lambda>j. round_events (f j)) js)) = concat (map (\<lambda>j. message_of (f j)) js)"
  "poll_calls (concat (map (\<lambda>j. round_events (f j)) js)) = replicate (length js) 100"
  "assignments (concat (map (\<lambda>j. round_events (f j)) js)) = []"
proof (induction js)
  case Nil
  {
    case 1 show ?case by (simp add: world_simps trace_simps)
  next
    case 2 show ?case by (simp add: trace_simps)
  next
    case 3 show ?case by (simp add: trace_simps)
  }
next
  case (Cons j js)
  {
    case 1 with Cons show ?case by (cases "f j") (simp_all add: trace_simps)
  next
    case 2 with Cons show ?case by (cases "f j") (simp_all add: trace_simps)
  next
    case 3 with Cons show ?case by (cases "f j") (simp_all add: trace_simps)
  }
qed

text \<open>
  Claim C7. The loop returns for one reason only, the cancellation of the context, and
  then with the context's error. Up to the check that sees the cancellation it polls at
  every round; every message it polls goes to the handler, whatever the handler returned
  for the messages before and whatever broker errors came in between; and every handler
  error and every broker error is one line of the error log.
\<close>

theorem consume_loop_survives_errors:
  "(\<forall>w' r. poll_loop ctx ce h 0 w = Some (w', r) \<longrightarrow>
       cancel_tick ctx \<noteq> None \<and> r = Some (ctx_error ctx))
   \<and> (\<forall>n. cancel_tick ctx = Some n \<longrightarrow>
        (\<exists>w'. poll_loop ctx ce h 0 w = Some (w', Some (ctx_error ctx))
           \<and> poll_calls (added w w') = replicate n 100
           \<and> handled (added w w')
               = concat (map (\<lambda>j. message_of (polls ce j (assigned w))) [0..<n])
           \<and> added_logs w w'
               = concat (map (\<lambda>j. round_log h (polls ce j (assigned w))) [0..<n])))"
proof -
  have only: "\<forall>w' r. poll_loop ctx ce h 0 w = Some (w', r) \<longrightarrow>
       cancel_tick ctx \<noteq> None \<and> r = Some (ctx_error ctx)"
    using poll_loop_returns_only_cancelled [of ctx ce h 0 w] by fastforce
  have run: "\<forall>n. cancel_tick ctx = Some n \<longrightarrow>
        (\<exists>w'. poll_loop ctx ce h 0 w = Some (w', Some (ctx_error ctx))
           \<and> poll_calls (added w w') = replicate n 100
           \<and> handled (added w w')
               = concat (map (\<lambda>j. message_of (polls ce j (assigned w))) [0..<n])
           \<and> added_logs w w'
               = concat (map (\<lambda>j. round_log h (polls ce j (assigned w))) [0..<n]))"
  proof (intro allI impI)
    fix n
    assume n: "cancel_tick ctx = Some n"
    let ?w' = "rounds ce h 0 n w"
    have "poll_loop ctx ce h 0 w = Some (?w', Some (ctx_error ctx))"
      using poll_loop_cancelled [OF n, of 0 ce h w] by simp
    moreover have "poll_calls (added w ?w') = replicate n 100"
      and "handled (added w ?w')
               = concat (map (\<lambda>j. message_of (polls ce j (assigned w))) [0..<n])"
      and "added_logs w ?w'
               = concat (map (\<lambda>j. round_log h (polls ce j (assigned w))) [0..<n])"
      using rounds_effect [of ce h 0 n w] by (simp_all add: world_simps trace_simps obs_concat)
    ultimately show "\<exists>w'. poll_loop ctx ce h 0 w = Some (w', Some (ctx_error ctx))
           \<and> poll_calls (added w w') = replicate n 100
           \<and> handled (added w w')
               = concat (map (\<lambda>j. message_of (polls ce j (assigned w))) [0..<n])
           \<and> added_logs w w'
               = concat (map (\<lambda>j. round_log h (polls ce j (assigned w))) [0..<n])"
      by blast
  qed
  from only run show ?thesis by (rule conjI)
qed

lemma upt_4: "[0..<4] = [0, 1, 2, 3]"
  by (simp add: upt_rec)

lemma example_polls_listening:
  "example_polls 0 [(''orders'', PartitionAt 0)] = MessageEvent (order_msg 0 5)"
  "example_polls (Suc 0) [(''orders'', PartitionAt 0)] = ErrorEvent ''Broker: transport failure''"
  "example_polls 2 [(''orders'', PartitionAt 0)] = NoEvent"
  "example_polls 3 [(''orders'', PartitionAt 0)] = MessageEvent (order_msg 0 6)"
  by (simp_all add: example_polls_def fetched_def order_msg_def envelope_def)

text \<open>
  The theorem at the example broker with a handler that fails on every message: both
  messages of partition 0 reach the handler, and the log has the two handler errors
  around the broker error.
\<close>

theorem consume_loop_survives_errors_witness:
  "\<exists>w'. poll_loop (cancelled_at 4) example_broker failing_handler 0 listening
           = Some (w', Some ''context canceled'')
        \<and> poll_calls (added listening w') = [100, 100, 100, 100]
        \<and> handled (added listening w') = [order_msg 0 5, order_msg 0 6]
        \<and> added_logs listening w'
            = [Log ERROR ''Error processing message: %v'' [ArgError ''cannot decode''],
               Log ERROR ''Consumer error: %v'' [ArgError ''Broker: transport failure''],
               Log ERROR ''Error processing message: %v'' [ArgError ''cannot decode'']]"
proof -
  have four: "replicate 4 (100::nat) = [100, 100, 100, 100]"
    by (simp add: numeral_eq_Suc)
  from consume_loop_survives_errors [of "cancelled_at 4" example_broker failing_handler listening]
  show ?thesis
    by (simp add: cancelled_at_def example_broker_def listening_def upt_4 failing_handler_def
        four example_polls_listening)
qed

lemma ConsumeMessages_cancelled:
  assumes "kafka_consumer w" and "assign_error ce = None" and "cancel_tick ctx = Some n"
  shows "\<exists>w'. ConsumeMessages ctx ce topic h w = Some (w', Some (ctx_error ctx))
          \<and> added w w'
              = Assign [(topic, PartitionAt 0, OffsetEnd)]
                # concat (map (\<lambda>j. round_events (polls ce j [(topic, PartitionAt 0)])) [0..<n])
                @ [Unassign]
          \<and> assigned w' = (if unassign_error ce = None then [] else [(topic, PartitionAt 0)])"
proof -
  let ?w1 = "(emit (Assign [(topic, PartitionAt 0, OffsetEnd)]) w)
               \<lparr>assigned := [(topic, PartitionAt 0)]\<rparr>"
  let ?w2 = "rounds ce h 0 n ?w1"
  have a: "consumer_Assign ce [(topic, PartitionAt 0, OffsetEnd)] w = (?w1, None)"
    using assms(2) by (simp add: consumer_Assign_def Let_def)
  have l: "poll_loop ctx ce h 0 ?w1 = Some (?w2, Some (ctx_error ctx))"
    using poll_loop_cancelled [OF assms(3), of 0 ce h ?w1] by simp
  have r: "trace ?w2 = trace w @ Assign [(topic, PartitionAt 0, OffsetEnd)]
             # concat (map (\<lambda>j. round_events (polls ce j [(topic, PartitionAt 0)])) [0..<n])"
    "assigned ?w2 = [(topic, PartitionAt 0)]"
    using rounds_effect [of ce h 0 n ?w1] by (simp_all add: world_simps trace_simps)
  have c: "ConsumeMessages ctx ce topic h w
             = Some (fst (consumer_Unassign ce ?w2), Some (ctx_error ctx))"
    using assms(1) by (simp add: ConsumeMessages_def a l)
  show ?thesis
    unfolding c using r
    by (cases "unassign_error ce") (simp_all add: world_simps trace_simps consumer_Unassign_def Let_def)
qed

text \<open>
  Claim C8, for a consumer that exists. When the assignment fails, \<open>ConsumeMessages\<close>
  returns the wrapped assignment error after the \<open>Assign\<close> call alone: no poll, no
  handler call. When the assignment succeeds and the context is cancelled, the loop
  leaves at the first check that sees the cancellation, having made one \<open>Poll(100)\<close> per
  earlier check and none afterwards; \<open>Unassign\<close> is then the last call, its error is
  dropped, and the context's error is returned. With the context cancelled by the first
  check there is no poll at all, and a successful \<open>Unassign\<close> leaves the consumer with no
  partition.
\<close>

theorem Consume_assignment_failure_and_cancellation:
  assumes "kafka_consumer w"
  shows "(\<forall>e. assign_error ce = Some e \<longrightarrow>
            ConsumeMessages ctx ce topic h w
              = Some (emit (Assign [(topic, PartitionAt 0, OffsetEnd)]) w,
                      Some (''failed to assign consumer to topic '' @ topic @ '': '' @ e)))
       \<and> (\<forall>n. assign_error ce = None \<and> cancel_tick ctx = Some n \<longrightarrow>
            (\<exists>w' mid. ConsumeMessages ctx ce topic h w = Some (w', Some (ctx_error ctx))
               \<and> added w w' = Assign [(topic, PartitionAt 0, OffsetEnd)] # mid @ [Unassign]
               \<and> poll_calls mid = replicate n 100
               \<and> (n = 0 \<longrightarrow> mid = [])
               \<and> (unassign_error ce = None \<longrightarrow> assigned w' = [])))"
proof -
  have fail: "\<forall>e. assign_error ce = Some e \<longrightarrow>
            ConsumeMessages ctx ce topic h w
              = Some (emit (Assign [(topic, PartitionAt 0, OffsetEnd)]) w,
                      Some (''failed to assign consumer to topic '' @ topic @ '': '' @ e))"
    using assms by (simp add: ConsumeMessages_def consumer_Assign_def Let_def)
  have cancel: "\<forall>n. assign_error ce = None \<and> cancel_tick ctx = Some n \<longrightarrow>
            (\<exists>w' mid. ConsumeMessages ctx ce topic h w = Some (w', Some (ctx_error ctx))
               \<and> added w w' = Assign [(topic, PartitionAt 0, OffsetEnd)] # mid @ [Unassign]
               \<and> poll_calls mid = replicate n 100
               \<and> (n = 0 \<longrightarrow> mid = [])
               \<and> (unassign_error ce = None \<longrightarrow> assigned w' = []))"
  proof (intro allI impI)
    fix n
    assume "assign_error ce = None \<and> cancel_tick ctx = Some n"
    then obtain w' where w': "ConsumeMessages ctx ce topic h w = Some (w', Some (ctx_error ctx))"
      "added w w' = Assign [(topic, PartitionAt 0, OffsetEnd)]
                # concat (map (\<lambda>j. round_events (polls ce j [(topic, PartitionAt 0)])) [0..<n])
                @ [Unassign]"
      "assigned w' = (if unassign_error ce = None then [] else [(topic, PartitionAt 0)])"
      using ConsumeMessages_cancelled [OF assms, of ce ctx n topic h] by blast
    let ?mid = "concat (map (\<lambda>j. round_events (polls ce j [(topic, PartitionAt 0)])) [0..<n])"
    have "poll_calls ?mid = replicate n 100" "n = 0 \<longrightarrow> ?mid = []"
      by (simp_all add: obs_concat)
    with w' show "\<exists>w' mid. ConsumeMessages ctx ce topic h w = Some (w', Some (ctx_error ctx))
               \<and> added w w' = Assign [(topic, PartitionAt 0, OffsetEnd)] # mid @ [Unassign]
               \<and> poll_calls mid = replicate n 100
               \<and> (n = 0 \<longrightarrow> mid = [])
               \<and> (unassign_error ce = None \<longrightarrow> assigned w' = [])"
      by (intro exI [of _ w'] exI [of _ ?mid]) simp
  qed
  from fail cancel show ?thesis by (rule conjI)
qed

text \<open>
  The theorem at a consumer whose assignment is refused, and at one whose context is
  cancelled right after the assignment.
\<close>

theorem Consume_assignment_failure_and_cancellation_witness:
  "ConsumeMessages background_ctx refusing_broker ''orders'' failing_handler messaging_up
     = Some (emit (Assign [(''orders'', PartitionAt 0, OffsetEnd)]) messaging_up,
             Some ''failed to assign consumer to topic orders: Local: Unknown partition'')
   \<and> (\<exists>w'. ConsumeMessages (cancelled_at 0) example_broker ''orders'' failing_handler messaging_up
              = Some (w', Some ''context canceled'')
          \<and> added messaging_up w' = [Assign [(''orders'', PartitionAt 0, OffsetEnd)], Unassign]
          \<and> assigned w' = [])"
  using Consume_assignment_failure_and_cancellation [of messaging_up refusing_broker
          background_ctx "''orders''" failing_handler]
        Consume_assignment_failure_and_cancellation [of messaging_up example_broker
          "cancelled_at 0" "''orders''" failing_handler]
  by (simp add: messaging_up_fields world_simps trace_simps refusing_broker_def
      example_broker_def cancelled_at_def)

text \<open>
  Claim C10. \<open>ConsumeMessages\<close> makes one assignment, of partition 0 of the topic at the
  end offset, and hands to the handler exactly the messages its polls return. The client
  library returns from a poll only messages of a partition that is assigned (its
  contract, a hypothesis here); so every message the handler sees is of partition 0 of
  the topic, and a message of another partition never reaches it.
\<close>

theorem Consume_partition_zero_only:
  assumes "kafka_consumer w" and "assign_error ce = None" and "cancel_tick ctx = Some n"
    and "\<forall>i asg m. polls ce i asg = MessageEvent m \<longrightarrow> (msg_topic m, msg_partition m) \<in> set asg"
  shows "\<exists>w'. ConsumeMessages ctx ce topic h w = Some (w', Some (ctx_error ctx))
          \<and> assignments (added w w') = [[(topic, PartitionAt 0, OffsetEnd)]]
          \<and> handled (added w w')
              = concat (map (\<lambda>j. message_of (polls ce j [(topic, PartitionAt 0)])) [0..<n])
          \<and> (\<forall>m \<in> set (handled (added w w')).
                msg_topic m = topic \<and> msg_partition m = PartitionAt 0)"
proof -
  obtain w' where w': "ConsumeMessages ctx ce topic h w = Some (w', Some (ctx_error ctx))"
      "added w w' = Assign [(topic, PartitionAt 0, OffsetEnd)]
                # concat (map (\<lambda>j. round_events (polls ce j [(topic, PartitionAt 0)])) [0..<n])
                @ [Unassign]"
    using ConsumeMessages_cancelled [OF assms(1-3), of topic h] by blast
  have hd: "handled (added w w')
              = concat (map (\<lambda>j. message_of (polls ce j [(topic, PartitionAt 0)])) [0..<n])"
    and asg: "assignments (added w w') = [[(topic, PartitionAt 0, OffsetEnd)]]"
    by (simp_all add: world_simps trace_simps w'(2) obs_concat)
  have "msg_topic m = topic \<and> msg_partition m = PartitionAt 0"
    if "m \<in> set (message_of (polls ce j [(topic, PartitionAt 0)]))" for m j
  proof -
    from that have "polls ce j [(topic, PartitionAt 0)] = MessageEvent m"
      by (cases "polls ce j [(topic, PartitionAt 0)]") simp_all
    with assms(4) have "(msg_topic m, msg_partition m) \<in> set [(topic, PartitionAt 0)]"
      by blast
    then show ?thesis by simp
  qed
  then have "\<forall>m \<in> set (handled (added w w')).
                msg_topic m = topic \<and> msg_partition m = PartitionAt 0"
    unfolding hd by auto
  with w'(1) hd asg show ?thesis by blast
qed

text \<open>
  The theorem at the example broker, which offers a message of partition 1 at the third
  poll: the handler sees the two messages of partition 0 only.
\<close>

theorem Consume_partition_zero_only_witness:
  "\<exists>w'. ConsumeMessages (cancelled_at 4) example_broker ''orders'' failing_handler messaging_up
           = Some (w', Some ''context canceled'')
        \<and> assignments (added messaging_up w') = [[(''orders'', PartitionAt 0, OffsetEnd)]]
        \<and> handled (added messaging_up w') = [order_msg 0 5, order_msg 0 6]"
proof -
  have contract: "\<forall>i asg m. polls example_broker i asg = MessageEvent m
      \<longrightarrow> (msg_topic m, msg_partition m) \<in> set asg"
    by (simp add: example_broker_def example_polls_def fetched_def)
  from Consume_partition_zero_only [of messaging_up example_broker "cancelled_at 4" 4
      "''orders''" failing_handler, OF _ _ _ contract]
  show ?thesis
    by (simp add: messaging_up_fields example_polls_listening world_simps trace_simps
        cancelled_at_def example_broker_def upt_4) blast
qed

end
